theory Spec2Isabelle
  imports Main "HOL-Library.Word" "HOL-Library.Signed_Division"
begin

unbundle bit_operations_syntax

section \<open>The AMD CPPC cpufreq driver (amd\_cppc.c)\<close>

text \<open>
  The driver's integers keep their C widths. \<open>uint8_t\<close> is an 8-bit word, \<open>uint64_t\<close> a
  64-bit word, and \<open>int\<close> a 32-bit word read in two's complement (\<open>sint\<close>) and compared
  with the signed orders \<open><s\<close> and \<open>\<le>s\<close>. The conversions are the ones the C code
  performs: \<open>ucast\<close> zero-extends or truncates, \<open>scast\<close> sign-extends.
\<close>

type_synonym uint8_t = "8 word"
type_synonym c_int = "32 word"
type_synonym uint32_t = "32 word"
type_synonym uint64_t = "64 word"
type_synonym device_t = nat
type_synonym errno = int

subsection \<open>Constants and register layout\<close>

definition ENXIO :: errno where
  "ENXIO = 6"

definition EINVAL :: errno where
  "EINVAL = 22"

text \<open>\<open>CPUFREQ_VAL_UNKNOWN\<close> comes from the kernel's \<open>sys/cpu.h\<close>, where it is \<open>(-1)\<close>.\<close>

definition CPUFREQ_VAL_UNKNOWN :: c_int where
  "CPUFREQ_VAL_UNKNOWN = - 1"

definition MSR_AMD_CPPC_CAP1 :: uint32_t where
  "MSR_AMD_CPPC_CAP1 = 0xC00102B0"

definition MSR_AMD_CPPC_ENABLE :: uint32_t where
  "MSR_AMD_CPPC_ENABLE = 0xC00102B1"

definition MSR_AMD_CPPC_REQ :: uint32_t where
  "MSR_AMD_CPPC_REQ = 0xC00102B3"

definition AMD_CPPC_LOWEST_PERF :: "uint64_t \<Rightarrow> uint64_t" where
  "AMD_CPPC_LOWEST_PERF x = drop_bit 0 x AND 0xFF"

definition AMD_CPPC_LOWNONLIN_PERF :: "uint64_t \<Rightarrow> uint64_t" where
  "AMD_CPPC_LOWNONLIN_PERF x = drop_bit 8 x AND 0xFF"

definition AMD_CPPC_NOMINAL_PERF :: "uint64_t \<Rightarrow> uint64_t" where
  "AMD_CPPC_NOMINAL_PERF x = drop_bit 16 x AND 0xFF"

definition AMD_CPPC_HIGHEST_PERF :: "uint64_t \<Rightarrow> uint64_t" where
  "AMD_CPPC_HIGHEST_PERF x = drop_bit 24 x AND 0xFF"

definition AMD_CPPC_REQ_BUILD :: "uint8_t \<Rightarrow> uint8_t \<Rightarrow> uint8_t \<Rightarrow> uint8_t \<Rightarrow> uint64_t" where
  "AMD_CPPC_REQ_BUILD max_p min_p des epp_hw =
     (push_bit 24 (ucast epp_hw) OR push_bit 16 (ucast des) OR
      push_bit 8 (ucast min_p) OR push_bit 0 (ucast max_p))"

definition AMD_CPPC_ENABLE_BIT :: uint64_t where
  "AMD_CPPC_ENABLE_BIT = push_bit 0 1"

definition AMD_CPPC_MAX_SETTINGS :: int where
  "AMD_CPPC_MAX_SETTINGS = 64"

subsection \<open>Per-CPU state\<close>

record amd_cppc_softc =
  dev :: device_t
  cpu_id :: c_int
  highest_perf :: uint8_t
  nominal_perf :: uint8_t
  lowest_nonlinear_perf :: uint8_t
  lowest_perf :: uint8_t
  req_max_perf :: uint8_t
  req_min_perf :: uint8_t
  req_des_perf :: uint8_t
  req_epp :: uint8_t
  base_freq_mhz :: c_int
  epp :: c_int
  cppc_enabled :: bool

record cf_setting =
  freq :: c_int
  volts :: c_int
  power :: c_int
  lat :: c_int
  cf_dev :: device_t

text \<open>
  \<open>rdmsr\<close> and \<open>wrmsr\<close> are the processor's primitives. The driver runs them on the
  CPU it is bound to, so they are taken as parameters over an arbitrary machine state
  \<open>'h\<close>, indexed by the CPU and the register number.
\<close>

record 'h msr_ops =
  rdmsr :: "'h \<Rightarrow> c_int \<Rightarrow> uint32_t \<Rightarrow> uint64_t"
  wrmsr :: "'h \<Rightarrow> c_int \<Rightarrow> uint32_t \<Rightarrow> uint64_t \<Rightarrow> 'h"

definition amd_cppc_rdmsr :: "'h msr_ops \<Rightarrow> amd_cppc_softc \<Rightarrow> 'h \<Rightarrow> uint32_t \<Rightarrow> uint64_t" where
  "amd_cppc_rdmsr ops sc h msr = rdmsr ops h (cpu_id sc) msr"

definition amd_cppc_wrmsr :: "'h msr_ops \<Rightarrow> amd_cppc_softc \<Rightarrow> 'h \<Rightarrow> uint32_t \<Rightarrow> uint64_t \<Rightarrow> 'h" where
  "amd_cppc_wrmsr ops sc h msr val = wrmsr ops h (cpu_id sc) msr val"

subsection \<open>Unit conversion\<close>

definition amd_cppc_perf_to_mhz :: "amd_cppc_softc \<Rightarrow> uint8_t \<Rightarrow> c_int" where
  "amd_cppc_perf_to_mhz sc perf =
     (if nominal_perf sc = 0 then 0
      else ucast ((scast (base_freq_mhz sc) :: uint64_t) * ucast perf
                  div ucast (nominal_perf sc)))"

definition amd_cppc_mhz_to_perf :: "amd_cppc_softc \<Rightarrow> c_int \<Rightarrow> uint8_t" where
  "amd_cppc_mhz_to_perf sc mhz =
     (if base_freq_mhz sc = 0 then nominal_perf sc
      else
        let perf = (ucast ((scast mhz :: uint64_t) * ucast (nominal_perf sc)
                           div scast (base_freq_mhz sc)) :: c_int);
            perf = (if perf <s ucast (lowest_perf sc) then ucast (lowest_perf sc) else perf);
            perf = (if ucast (highest_perf sc) <s perf then ucast (highest_perf sc) else perf)
        in ucast perf)"

text \<open>
  After the two clamps \<open>epp\<close> lies in \<open>[0, 100]\<close>, so the product \<open>epp * 255\<close> stays far
  inside \<open>int\<close> and the division is C's signed one.
\<close>

definition amd_cppc_epp_to_hw :: "c_int \<Rightarrow> uint8_t" where
  "amd_cppc_epp_to_hw e =
     (let e = (if e <s 0 then 0 else e);
          e = (if 100 <s e then 100 else e)
      in ucast (word_of_int (sint (e * 255) sdiv 100) :: c_int))"

subsection \<open>Request register and enable bit\<close>

definition amd_cppc_write_req :: "'h msr_ops \<Rightarrow> amd_cppc_softc \<Rightarrow> 'h \<Rightarrow> 'h" where
  "amd_cppc_write_req ops sc h =
     amd_cppc_wrmsr ops sc h MSR_AMD_CPPC_REQ
       (AMD_CPPC_REQ_BUILD (req_max_perf sc) (req_min_perf sc) (req_des_perf sc) (req_epp sc))"

definition amd_cppc_enable :: "'h msr_ops \<Rightarrow> amd_cppc_softc \<times> 'h \<Rightarrow> errno \<times> amd_cppc_softc \<times> 'h" where
  "amd_cppc_enable ops s =
     (case s of (sc, h) \<Rightarrow>
        let val = amd_cppc_rdmsr ops sc h MSR_AMD_CPPC_ENABLE in
        if val AND AMD_CPPC_ENABLE_BIT = 0 then
          let h1 = amd_cppc_wrmsr ops sc h MSR_AMD_CPPC_ENABLE (val OR AMD_CPPC_ENABLE_BIT);
              val1 = amd_cppc_rdmsr ops sc h1 MSR_AMD_CPPC_ENABLE
          in if val1 AND AMD_CPPC_ENABLE_BIT = 0 then (ENXIO, sc, h1)
             else (0, sc\<lparr>cppc_enabled := True\<rparr>, h1)
        else (0, sc\<lparr>cppc_enabled := True\<rparr>, h))"

definition amd_cppc_disable :: "'h msr_ops \<Rightarrow> amd_cppc_softc \<times> 'h \<Rightarrow> amd_cppc_softc \<times> 'h" where
  "amd_cppc_disable ops s =
     (case s of (sc, h) \<Rightarrow>
        if \<not> cppc_enabled sc then (sc, h)
        else
          let h1 = amd_cppc_wrmsr ops sc h MSR_AMD_CPPC_REQ 0;
              val = amd_cppc_rdmsr ops sc h1 MSR_AMD_CPPC_ENABLE;
              val = val AND NOT AMD_CPPC_ENABLE_BIT;
              h2 = amd_cppc_wrmsr ops sc h1 MSR_AMD_CPPC_ENABLE val
          in (sc\<lparr>cppc_enabled := False\<rparr>, h2))"

subsection \<open>Capabilities\<close>

text \<open>The four fields are stored before they are checked, so a failed read leaves them set.\<close>

definition amd_cppc_read_caps :: "'h msr_ops \<Rightarrow> amd_cppc_softc \<times> 'h \<Rightarrow> errno \<times> amd_cppc_softc" where
  "amd_cppc_read_caps ops s =
     (case s of (sc, h) \<Rightarrow>
        let cap1 = amd_cppc_rdmsr ops sc h MSR_AMD_CPPC_CAP1;
            sc = sc\<lparr>highest_perf := ucast (AMD_CPPC_HIGHEST_PERF cap1)\<rparr>;
            sc = sc\<lparr>nominal_perf := ucast (AMD_CPPC_NOMINAL_PERF cap1)\<rparr>;
            sc = sc\<lparr>lowest_nonlinear_perf := ucast (AMD_CPPC_LOWNONLIN_PERF cap1)\<rparr>;
            sc = sc\<lparr>lowest_perf := ucast (AMD_CPPC_LOWEST_PERF cap1)\<rparr>
        in if highest_perf sc = 0 \<or> nominal_perf sc = 0 \<or> lowest_perf sc = 0 then (ENXIO, sc)
           else if lowest_perf sc > nominal_perf sc \<or> nominal_perf sc > highest_perf sc
             then (ENXIO, sc)
           else (0, sc))"

subsection \<open>The EPP sysctl handler\<close>

text \<open>
  \<open>sysctl_handle_int\<close> belongs to the kernel. A request is described by what that call
  does with it: the error it returns, and the integer it copies into the local \<open>epp\<close>
  when the request carries a new value (\<open>None\<close> stands for \<open>req->newptr == NULL\<close>).
\<close>

record sysctl_req =
  handle_error :: errno
  newptr :: "c_int option"

definition amd_cppc_sysctl_epp ::
  "'h msr_ops \<Rightarrow> sysctl_req \<Rightarrow> amd_cppc_softc \<times> 'h \<Rightarrow> errno \<times> amd_cppc_softc \<times> 'h" where
  "amd_cppc_sysctl_epp ops rq s =
     (case s of (sc, h) \<Rightarrow>
        let error = handle_error rq in
        (case newptr rq of
           None \<Rightarrow> (error, sc, h)
         | Some e \<Rightarrow>
             if error \<noteq> 0 then (error, sc, h)
             else if e <s 0 \<or> 100 <s e then (EINVAL, sc, h)
             else
               let sc = sc\<lparr>epp := e\<rparr>;
                   sc = sc\<lparr>req_epp := amd_cppc_epp_to_hw e\<rparr>;
                   h = (if cppc_enabled sc then amd_cppc_write_req ops sc h else h)
               in (0, sc, h)))"

subsection \<open>Suspend and resume\<close>

definition amd_cppc_suspend :: "'h msr_ops \<Rightarrow> amd_cppc_softc \<times> 'h \<Rightarrow> errno \<times> amd_cppc_softc \<times> 'h" where
  "amd_cppc_suspend ops s = (case amd_cppc_disable ops s of (sc, h) \<Rightarrow> (0, sc, h))"

definition amd_cppc_resume :: "'h msr_ops \<Rightarrow> amd_cppc_softc \<times> 'h \<Rightarrow> errno \<times> amd_cppc_softc \<times> 'h" where
  "amd_cppc_resume ops s =
     (case s of (sc0, h) \<Rightarrow>
        case amd_cppc_read_caps ops (sc0, h) of (error, sc) \<Rightarrow>
          if error \<noteq> 0 then (error, sc, h)
          else
            case amd_cppc_enable ops (sc, h) of (error, sc, h) \<Rightarrow>
              if error \<noteq> 0 then (error, sc, h)
              else (0, sc, amd_cppc_write_req ops sc h))"

subsection \<open>cpufreq driver methods\<close>

text \<open>
  One entry of the settings array: \<open>memset\<close> clears it, then the five members below are
  assigned.
\<close>

definition mk_setting :: "amd_cppc_softc \<Rightarrow> uint8_t \<Rightarrow> cf_setting" where
  "mk_setting sc perf =
     \<lparr>freq = amd_cppc_perf_to_mhz sc perf, volts = CPUFREQ_VAL_UNKNOWN,
      power = CPUFREQ_VAL_UNKNOWN, lat = 1, cf_dev = dev sc\<rparr>"

text \<open>
  The loop of \<open>amd_cppc_settings\<close>. Its counters are C \<open>int\<close>s that stay between \<open>-8\<close> and
  \<open>255\<close> (\<open>perf\<close>) and between \<open>0\<close> and \<open>64\<close> (\<open>n\<close>), so they are modelled as unbounded
  integers; \<open>count\<close> is the caller's \<open>*count\<close>. The entries stored into \<open>sets[0..n-1]\<close>
  are collected in order.
\<close>

function settings_loop ::
  "amd_cppc_softc \<Rightarrow> int \<Rightarrow> int \<Rightarrow> int \<Rightarrow> int \<Rightarrow> cf_setting list \<Rightarrow> int \<times> cf_setting list" where
  "settings_loop sc count step perf n sets =
     (if perf > uint (lowest_perf sc) then
        if n \<ge> count \<or> n \<ge> AMD_CPPC_MAX_SETTINGS then (n, sets)
        else settings_loop sc count step (perf - step) (n + 1)
               (sets @ [mk_setting sc (word_of_int perf)])
      else (n, sets))"
  by pat_completeness auto
termination
  by (relation "measure (\<lambda>(sc, count, step, perf, n, sets). nat (AMD_CPPC_MAX_SETTINGS - n))")
     (auto simp: AMD_CPPC_MAX_SETTINGS_def)

definition settings_step :: "amd_cppc_softc \<Rightarrow> int" where
  "settings_step sc =
     (let perf_range = uint (highest_perf sc) - uint (lowest_perf sc);
          step = perf_range sdiv 30
      in if step < 1 then 1 else step)"

text \<open>
  The result is the error code, the entries written to \<open>sets\<close>, and the final \<open>*count\<close>
  (left as the caller passed it when the call fails).
\<close>

definition amd_cppc_settings :: "amd_cppc_softc \<Rightarrow> int \<Rightarrow> errno \<times> cf_setting list \<times> int" where
  "amd_cppc_settings sc count =
     (if \<not> cppc_enabled sc then (ENXIO, [], count)
      else
        let perf_range = uint (highest_perf sc) - uint (lowest_perf sc) in
        if perf_range \<le> 0 then (0, [], 0)
        else
          case settings_loop sc count (settings_step sc) (uint (highest_perf sc)) 0 []
          of (n, sets) \<Rightarrow>
            if n < count \<and> n < AMD_CPPC_MAX_SETTINGS
            then (0, sets @ [mk_setting sc (lowest_perf sc)], n + 1)
            else (0, sets, n))"

definition amd_cppc_set ::
  "'h msr_ops \<Rightarrow> cf_setting \<Rightarrow> amd_cppc_softc \<times> 'h \<Rightarrow> errno \<times> amd_cppc_softc \<times> 'h" where
  "amd_cppc_set ops cf s =
     (case s of (sc, h) \<Rightarrow>
        if \<not> cppc_enabled sc then (ENXIO, sc, h)
        else
          let target_perf = amd_cppc_mhz_to_perf sc (freq cf);
              sc = sc\<lparr>req_max_perf := target_perf\<rparr>;
              sc = sc\<lparr>req_min_perf := lowest_perf sc\<rparr>;
              sc = sc\<lparr>req_des_perf := 0\<rparr>
          in (0, sc, amd_cppc_write_req ops sc h))"

definition amd_cppc_get :: "amd_cppc_softc \<Rightarrow> errno \<times> cf_setting option" where
  "amd_cppc_get sc =
     (if \<not> cppc_enabled sc then (ENXIO, None)
      else (0, Some \<lparr>freq = amd_cppc_perf_to_mhz sc (req_max_perf sc),
                     volts = CPUFREQ_VAL_UNKNOWN, power = CPUFREQ_VAL_UNKNOWN,
                     lat = CPUFREQ_VAL_UNKNOWN, cf_dev = dev sc\<rparr>))"

subsection \<open>A machine whose registers latch every write\<close>

definition store_ops :: "(c_int \<times> uint32_t \<Rightarrow> uint64_t) msr_ops" where
  "store_ops = \<lparr>rdmsr = (\<lambda>h c m. h (c, m)), wrmsr = (\<lambda>h c m v. h((c, m) := v))\<rparr>"

text \<open>The scenario of the specification: capabilities 20/40/100/180 on a 2000 MHz base.\<close>

definition scenario :: amd_cppc_softc where
  "scenario = \<lparr>dev = 0, cpu_id = 0, highest_perf = 180, nominal_perf = 100,
     lowest_nonlinear_perf = 40, lowest_perf = 20, req_max_perf = 180, req_min_perf = 20,
     req_des_perf = 0, req_epp = 127, base_freq_mhz = 2000, epp = 50, cppc_enabled = True\<rparr>"

text \<open>A request for 3000 MHz.\<close>

definition cf3000 :: cf_setting where
  "cf3000 = \<lparr>freq = 3000, volts = CPUFREQ_VAL_UNKNOWN, power = CPUFREQ_VAL_UNKNOWN, lat = 1, cf_dev = 0\<rparr>"

text \<open>
  A capability register whose lowest-nonlinear field (200) lies above the nominal field
  (100): highest 180, nominal 100, lowest-nonlinear 200, lowest 20.
\<close>

definition cap1_unordered :: "c_int \<times> uint32_t \<Rightarrow> uint64_t" where
  "cap1_unordered = (\<lambda>_. 0)((0, MSR_AMD_CPPC_CAP1) := 0xB464C814)"

text \<open>
  The scenario after a request capped at level 150, on a machine with CPPC switched on and
  the capability register 180/100/40/20.
\<close>

definition sc150 :: amd_cppc_softc where
  "sc150 = scenario\<lparr>req_max_perf := 150\<rparr>"

definition hw_on :: "c_int \<times> uint32_t \<Rightarrow> uint64_t" where
  "hw_on = (\<lambda>_. 0)((0, MSR_AMD_CPPC_CAP1) := 0xB4642814, (0, MSR_AMD_CPPC_ENABLE) := 1,
                 (0, MSR_AMD_CPPC_REQ) := 0x7F001496)"

lemmas hw_eval = amd_cppc_disable_def amd_cppc_resume_def amd_cppc_enable_def
  amd_cppc_read_caps_def amd_cppc_write_req_def amd_cppc_rdmsr_def amd_cppc_wrmsr_def
  store_ops_def hw_on_def sc150_def scenario_def Let_def
  AMD_CPPC_HIGHEST_PERF_def AMD_CPPC_NOMINAL_PERF_def AMD_CPPC_LOWNONLIN_PERF_def
  AMD_CPPC_LOWEST_PERF_def AMD_CPPC_REQ_BUILD_def AMD_CPPC_ENABLE_BIT_def
  MSR_AMD_CPPC_CAP1_def MSR_AMD_CPPC_ENABLE_def MSR_AMD_CPPC_REQ_def

text \<open>
  A request whose frequency is \<open>CPUFREQ_VAL_UNKNOWN\<close>, that is \<open>-1\<close>, and the scenario on
  a 3600 MHz and on a 4200 MHz base.
\<close>

definition cf_unknown :: cf_setting where
  "cf_unknown = \<lparr>freq = CPUFREQ_VAL_UNKNOWN, volts = CPUFREQ_VAL_UNKNOWN,
     power = CPUFREQ_VAL_UNKNOWN, lat = CPUFREQ_VAL_UNKNOWN, cf_dev = 0\<rparr>"

definition scenario_3600 :: amd_cppc_softc where
  "scenario_3600 = scenario\<lparr>base_freq_mhz := 3600\<rparr>"

definition scenario_4200 :: amd_cppc_softc where
  "scenario_4200 = scenario\<lparr>base_freq_mhz := 4200\<rparr>"

section \<open>Arithmetic of the casts\<close>

lemma uint_scast_int: "uint (scast (x::c_int) :: uint64_t) = sint x mod 2 ^ 64"
  unfolding scast_eq uint_word_of_int by simp

lemma uint_ucast_8_64: "uint (ucast (p::uint8_t) :: uint64_t) = uint p"
  by (simp add: uint_up_ucast is_up)

lemma sint_bounds32: "- (2 ^ 31) \<le> sint (x::c_int)" "sint (x::c_int) < 2 ^ 31"
  using sint_ge[of x] sint_lt[of x] by simp_all

lemma uint8_bound: "uint (p::uint8_t) < 256" "0 \<le> uint p"
  using uint_lt2p[of p] by simp_all

lemma stb31_id: "0 \<le> (k::int) \<Longrightarrow> k < 2 ^ 31 \<Longrightarrow> signed_take_bit 31 k = k"
  by (simp add: signed_take_bit_int_eq_self)

lemma sint_ucast_8_32: "sint (ucast (p::uint8_t) :: c_int) = uint p"
proof -
  have "uint p < 2 ^ 31"
    using uint8_bound(1)[of p] by simp
  then have "signed_take_bit 31 (uint p) = uint p"
    by (rule stb31_id[OF uint8_bound(2)])
  then show ?thesis
    unfolding signed_ucast_eq by simp
qed

lemma prod_bound:
  fixes a b :: int
  assumes "0 \<le> a" "a < 2 ^ 31" "0 \<le> b" "b < 256"
  shows "a * b < 2 ^ 64" "0 \<le> a * b"
proof -
  have "a * b \<le> 2 ^ 31 * 256" using assms by (intro mult_mono) auto
  then show "a * b < 2 ^ 64" by simp
  show "0 \<le> a * b" using assms by simp
qed

lemma scaled_uint:
  fixes x :: c_int and p n :: uint8_t
  assumes "0 \<le> sint x"
  shows "uint ((scast x :: uint64_t) * ucast p div ucast n) = sint x * uint p div uint n"
proof -
  have x: "sint x mod 2 ^ 64 = sint x"
    using assms sint_bounds32(2)[of x] by simp
  have y: "sint x * uint p mod 2 ^ 64 = sint x * uint p"
    using prod_bound[OF assms sint_bounds32(2) uint8_bound(2) uint8_bound(1), of p] by simp
  have "uint ((scast x :: uint64_t) * ucast p) = sint x mod 2 ^ 64 * uint p mod 2 ^ 64"
    unfolding uint_word_ariths uint_scast_int uint_ucast_8_64 by simp
  then have "uint ((scast x :: uint64_t) * ucast p) = sint x * uint p"
    unfolding x y .
  then show ?thesis
    unfolding uint_div uint_ucast_8_64 by simp
qed

lemma sint_ucast_64_32:
  assumes "uint (w::uint64_t) < 2 ^ 31"
  shows "sint (ucast w :: c_int) = uint w"
proof -
  have "0 \<le> uint w" by simp
  then have "signed_take_bit 31 (uint w) = uint w"
    using assms by (rule stb31_id)
  then show ?thesis
    unfolding signed_ucast_eq by simp
qed

section \<open>Performance level to MHz\<close>

lemma perf_to_mhz_sint:
  assumes "0 \<le> sint (base_freq_mhz sc)"
    and "sint (base_freq_mhz sc) * uint perf div uint (nominal_perf sc) < 2 ^ 31"
  shows "sint (amd_cppc_perf_to_mhz sc perf)
           = sint (base_freq_mhz sc) * uint perf div uint (nominal_perf sc)"
proof (cases "nominal_perf sc = 0")
  case True
  then show ?thesis by (simp add: amd_cppc_perf_to_mhz_def)
next
  case False
  let ?w = "(scast (base_freq_mhz sc) :: uint64_t) * ucast perf div ucast (nominal_perf sc)"
  have u: "uint ?w = sint (base_freq_mhz sc) * uint perf div uint (nominal_perf sc)"
    using assms(1) by (rule scaled_uint)
  then have "uint ?w < 2 ^ 31" using assms(2) by simp
  then have "sint (ucast ?w :: c_int) = uint ?w" by (rule sint_ucast_64_32)
  then show ?thesis using False u by (simp add: amd_cppc_perf_to_mhz_def)
qed

text \<open>
  Claim C7. For a base frequency that is not negative and a scaled value that fits the
  \<open>int\<close> result, \<open>perf_to_mhz\<close> returns exactly \<open>base_freq_mhz * perf / nominal_perf\<close>
  with truncating division; it returns 0 when \<open>nominal_perf\<close> is 0; and in the scenario
  20/40/100/180 at 2000 MHz the levels 100, 180 and 20 give 2000, 3600 and 400 MHz.
\<close>

theorem perf_to_mhz_exact:
  "(0 \<le> sint (base_freq_mhz sc) \<and>
    sint (base_freq_mhz sc) * uint perf div uint (nominal_perf sc) < 2 ^ 31
      \<longrightarrow> sint (amd_cppc_perf_to_mhz sc perf)
            = sint (base_freq_mhz sc) * uint perf div uint (nominal_perf sc))
   \<and> (nominal_perf sc = 0 \<longrightarrow> amd_cppc_perf_to_mhz sc perf = 0)
   \<and> amd_cppc_perf_to_mhz scenario 100 = 2000
   \<and> amd_cppc_perf_to_mhz scenario 180 = 3600
   \<and> amd_cppc_perf_to_mhz scenario 20 = 400"
proof (intro conjI impI)
  assume "0 \<le> sint (base_freq_mhz sc) \<and>
    sint (base_freq_mhz sc) * uint perf div uint (nominal_perf sc) < 2 ^ 31"
  then show "sint (amd_cppc_perf_to_mhz sc perf)
            = sint (base_freq_mhz sc) * uint perf div uint (nominal_perf sc)"
    using perf_to_mhz_sint by blast
next
  assume "nominal_perf sc = 0"
  then show "amd_cppc_perf_to_mhz sc perf = 0" by (simp add: amd_cppc_perf_to_mhz_def)
next
  show "amd_cppc_perf_to_mhz scenario 100 = 2000"
    by (simp add: amd_cppc_perf_to_mhz_def scenario_def)
  show "amd_cppc_perf_to_mhz scenario 180 = 3600"
    by (simp add: amd_cppc_perf_to_mhz_def scenario_def)
  show "amd_cppc_perf_to_mhz scenario 20 = 400"
    by (simp add: amd_cppc_perf_to_mhz_def scenario_def)
qed

theorem perf_to_mhz_exact_witness:
  "0 \<le> sint (base_freq_mhz scenario) \<and>
   sint (base_freq_mhz scenario) * uint (150 :: uint8_t) div uint (nominal_perf scenario) < 2 ^ 31 \<and>
   sint (amd_cppc_perf_to_mhz scenario 150) = 3000 \<and>
   nominal_perf (scenario\<lparr>nominal_perf := 0\<rparr>) = 0 \<and>
   amd_cppc_perf_to_mhz (scenario\<lparr>nominal_perf := 0\<rparr>) 150 = 0"
  using perf_to_mhz_exact[of scenario 150] perf_to_mhz_exact[of "scenario\<lparr>nominal_perf := 0\<rparr>" 150]
  by (simp add: scenario_def)

section \<open>Energy performance preference\<close>

lemma clamp_epp:
  fixes e :: c_int
  shows "sint (if 100 <s (if e <s 0 then 0 else e) then 100 else (if e <s 0 then 0 else e)) = max 0 (min 100 (sint e))"
  by (auto simp: word_sless_alt max_def min_def)

lemma sint_small_mult:
  fixes c :: c_int
  assumes "0 \<le> sint c" "sint c \<le> 100"
  shows "sint (c * 255) = sint c * 255"
  using assms 
  by (simp add: sint_word_ariths signed_take_bit_int_eq_self_iff)

lemma sdiv_nonneg: "0 \<le> (a::int) \<Longrightarrow> 0 < b \<Longrightarrow> a sdiv b = a div b"
  by (cases "a = 0") (simp_all add: signed_divide_int_def)

lemma uint_ucast_small:
  fixes q :: int
  assumes "0 \<le> q" "q < 256"
  shows "uint (ucast (word_of_int q :: c_int) :: uint8_t) = q"
  using assms
  by (simp add: unsigned_ucast_eq uint_word_of_int_eq take_bit_int_eq_self)

lemma epp_to_hw_uint: "uint (amd_cppc_epp_to_hw e) = max 0 (min 100 (sint e)) * 255 div 100"
proof -
  define c where "c = (if 100 <s (if e <s 0 then 0 else e) then 100 else (if e <s 0 then 0 else e))"
  have c: "sint c = max 0 (min 100 (sint e))" unfolding c_def by (rule clamp_epp)
  then have r: "0 \<le> sint c" "sint c \<le> 100" by auto
  then have m: "sint (c * 255) = sint c * 255" by (rule sint_small_mult)
  have q: "0 \<le> sint c * 255 div 100" "sint c * 255 div 100 < 256" using r by auto
  have "amd_cppc_epp_to_hw e = ucast (word_of_int (sint c * 255 div 100) :: c_int)"
    using r by (simp add: amd_cppc_epp_to_hw_def Let_def c_def[symmetric] m sdiv_nonneg)
  then show ?thesis using q c by (simp add: uint_ucast_small)
qed

text \<open>
  Claim C9. \<open>epp_to_hw\<close> clamps its argument to \<open>[0, 100]\<close> and returns
  \<open>epp * 255 / 100\<close> with truncation; 0 maps to 0, 100 maps to 255, and the function is
  monotonically non-decreasing over \<open>[0, 100]\<close>.
\<close>

theorem epp_to_hw_spec:
  "uint (amd_cppc_epp_to_hw e) = max 0 (min 100 (sint e)) * 255 div 100
   \<and> amd_cppc_epp_to_hw 0 = 0
   \<and> amd_cppc_epp_to_hw 100 = 255
   \<and> (\<forall>a b. 0 \<le> sint a \<and> sint a \<le> sint b \<and> sint b \<le> 100
          \<longrightarrow> amd_cppc_epp_to_hw a \<le> amd_cppc_epp_to_hw b)"
proof (intro conjI allI impI)
  show "uint (amd_cppc_epp_to_hw e) = max 0 (min 100 (sint e)) * 255 div 100"
    by (rule epp_to_hw_uint)
  show "amd_cppc_epp_to_hw 0 = 0"
    by (simp add: amd_cppc_epp_to_hw_def word_sless_alt)
  show "amd_cppc_epp_to_hw 100 = 255"
    by (simp add: amd_cppc_epp_to_hw_def word_sless_alt signed_divide_int_def)
next
  fix a b :: c_int
  assume h: "0 \<le> sint a \<and> sint a \<le> sint b \<and> sint b \<le> 100"
  then have "max 0 (min 100 (sint a)) * 255 \<le> max 0 (min 100 (sint b)) * 255"
    by simp
  then have "max 0 (min 100 (sint a)) * 255 div 100 \<le> max 0 (min 100 (sint b)) * 255 div 100"
    by (rule zdiv_mono1) simp
  then show "amd_cppc_epp_to_hw a \<le> amd_cppc_epp_to_hw b"
    unfolding word_le_def epp_to_hw_uint .
qed

theorem epp_to_hw_spec_witness:
  "0 \<le> sint (30 :: c_int) \<and> sint (30 :: c_int) \<le> sint (70 :: c_int) \<and> sint (70 :: c_int) \<le> 100
   \<and> amd_cppc_epp_to_hw 30 \<le> amd_cppc_epp_to_hw 70
   \<and> amd_cppc_epp_to_hw 30 = 76 \<and> amd_cppc_epp_to_hw 70 = 178"
  using epp_to_hw_spec[of 0, THEN conjunct2, THEN conjunct2, THEN conjunct2, THEN spec, THEN spec, of 30 70]
  by (simp add: amd_cppc_epp_to_hw_def word_sless_alt signed_divide_int_def)

section \<open>Capability validation\<close>

text \<open>
  Claim C1 says that \<open>read_caps\<close> fails unless lowest \<open>\<le>\<close> lowest-nonlinear \<open>\<le>\<close>
  nominal \<open>\<le>\<close> highest. On the register 180/100/200/20 the call succeeds although the
  lowest-nonlinear level is above the nominal one.
\<close>

theorem read_caps_counterexample:
  "fst (amd_cppc_read_caps store_ops (scenario, cap1_unordered)) = 0
   \<and> lowest_perf (snd (amd_cppc_read_caps store_ops (scenario, cap1_unordered))) = 20
   \<and> lowest_nonlinear_perf (snd (amd_cppc_read_caps store_ops (scenario, cap1_unordered))) = 200
   \<and> nominal_perf (snd (amd_cppc_read_caps store_ops (scenario, cap1_unordered))) = 100
   \<and> highest_perf (snd (amd_cppc_read_caps store_ops (scenario, cap1_unordered))) = 180
   \<and> \<not> (lowest_nonlinear_perf (snd (amd_cppc_read_caps store_ops (scenario, cap1_unordered)))
          \<le> nominal_perf (snd (amd_cppc_read_caps store_ops (scenario, cap1_unordered))))"
  by (simp add: amd_cppc_read_caps_def amd_cppc_rdmsr_def store_ops_def cap1_unordered_def
        scenario_def Let_def AMD_CPPC_HIGHEST_PERF_def AMD_CPPC_NOMINAL_PERF_def
        AMD_CPPC_LOWNONLIN_PERF_def AMD_CPPC_LOWEST_PERF_def)

text \<open>
  Claim C1, amended. \<open>read_caps\<close> returns 0 or \<open>ENXIO\<close>, and it returns 0 exactly when
  \<open>lowest_perf\<close> is not zero and lowest \<open>\<le>\<close> nominal \<open>\<le>\<close> highest holds of the stored
  bounds (so that all three are non-zero). The lowest-nonlinear bound takes no part in
  the check.
\<close>

theorem read_caps_validation:
  "(fst (amd_cppc_read_caps ops (sc, h)) = 0 \<or> fst (amd_cppc_read_caps ops (sc, h)) = ENXIO)
   \<and> (fst (amd_cppc_read_caps ops (sc, h)) = 0 \<longleftrightarrow>
        lowest_perf (snd (amd_cppc_read_caps ops (sc, h))) \<noteq> 0
        \<and> lowest_perf (snd (amd_cppc_read_caps ops (sc, h)))
            \<le> nominal_perf (snd (amd_cppc_read_caps ops (sc, h)))
        \<and> nominal_perf (snd (amd_cppc_read_caps ops (sc, h)))
            \<le> highest_perf (snd (amd_cppc_read_caps ops (sc, h))))"
proof -
  obtain err sc' where r: "amd_cppc_read_caps ops (sc, h) = (err, sc')"
    by (cases "amd_cppc_read_caps ops (sc, h)")
  have e: "err = (if highest_perf sc' = 0 \<or> nominal_perf sc' = 0 \<or> lowest_perf sc' = 0
                     \<or> lowest_perf sc' > nominal_perf sc' \<or> nominal_perf sc' > highest_perf sc'
                  then ENXIO else 0)"
    using r by (auto simp: amd_cppc_read_caps_def Let_def split: if_splits)
  have core: "(\<not> (hi = 0 \<or> no = 0 \<or> lo = 0 \<or> lo > no \<or> no > hi))
      \<longleftrightarrow> (lo \<noteq> 0 \<and> lo \<le> no \<and> no \<le> hi)" for lo no hi :: uint8_t
    by (auto simp: not_less)
  have z: "err = 0 \<longleftrightarrow>
      \<not> (highest_perf sc' = 0 \<or> nominal_perf sc' = 0 \<or> lowest_perf sc' = 0
         \<or> lowest_perf sc' > nominal_perf sc' \<or> nominal_perf sc' > highest_perf sc')"
    unfolding e by (simp add: ENXIO_def)
  have v: "err = 0 \<longleftrightarrow>
      lowest_perf sc' \<noteq> 0 \<and> lowest_perf sc' \<le> nominal_perf sc'
      \<and> nominal_perf sc' \<le> highest_perf sc'"
    unfolding z by (rule core)
  have d: "err = 0 \<or> err = ENXIO"
    unfolding e by simp
  show ?thesis
    unfolding r fst_conv snd_conv using v d by blast
qed

theorem read_caps_validation_witness:
  "fst (amd_cppc_read_caps store_ops (scenario, cap1_unordered)) = 0
   \<and> fst (amd_cppc_read_caps store_ops (scenario, \<lambda>_. 0)) = ENXIO"
  using read_caps_validation[of store_ops scenario cap1_unordered]
    read_caps_validation[of store_ops scenario "\<lambda>_. 0"]
  by (simp add: amd_cppc_read_caps_def amd_cppc_rdmsr_def store_ops_def cap1_unordered_def
        scenario_def Let_def AMD_CPPC_HIGHEST_PERF_def AMD_CPPC_NOMINAL_PERF_def
        AMD_CPPC_LOWNONLIN_PERF_def AMD_CPPC_LOWEST_PERF_def)

section \<open>The request state machine\<close>

text \<open>
  Claim C4. \<open>set_target\<close> on a disabled instance fails with \<open>ENXIO\<close> (NotEnabled) and
  leaves the softc and the machine as they were. On an enabled instance it succeeds, sets
  \<open>req_max_perf\<close> to \<open>mhz_to_perf\<close> of the requested frequency, \<open>req_min_perf\<close> to
  \<open>lowest_perf\<close> and \<open>req_des_perf\<close> to 0, and writes the combined request.
\<close>

theorem set_target_spec:
  "(\<not> cppc_enabled sc \<longrightarrow> amd_cppc_set ops cf (sc, h) = (ENXIO, sc, h))
   \<and> (cppc_enabled sc \<longrightarrow>
        amd_cppc_set ops cf (sc, h) =
          (0,
           sc\<lparr>req_max_perf := amd_cppc_mhz_to_perf sc (freq cf),
              req_min_perf := lowest_perf sc,
              req_des_perf := 0\<rparr>,
           wrmsr ops h (cpu_id sc) MSR_AMD_CPPC_REQ
             (AMD_CPPC_REQ_BUILD (amd_cppc_mhz_to_perf sc (freq cf)) (lowest_perf sc) 0
                (req_epp sc))))"
proof (cases "cppc_enabled sc")
  case False
  then have "amd_cppc_set ops cf (sc, h) = (ENXIO, sc, h)"
    by (simp add: amd_cppc_set_def)
  with False show ?thesis by simp
next
  case True
  let ?sc = "sc\<lparr>req_max_perf := amd_cppc_mhz_to_perf sc (freq cf),
                 req_min_perf := lowest_perf sc, req_des_perf := 0\<rparr>"
  have w: "amd_cppc_write_req ops ?sc h =
      wrmsr ops h (cpu_id sc) MSR_AMD_CPPC_REQ
        (AMD_CPPC_REQ_BUILD (amd_cppc_mhz_to_perf sc (freq cf)) (lowest_perf sc) 0 (req_epp sc))"
    by (simp add: amd_cppc_write_req_def amd_cppc_wrmsr_def)
  have "amd_cppc_set ops cf (sc, h) = (0, ?sc, amd_cppc_write_req ops ?sc h)"
    using True by (simp add: amd_cppc_set_def Let_def)
  with True w show ?thesis by simp
qed

lemma mhz_to_perf_scenario_3000: "amd_cppc_mhz_to_perf scenario 3000 = 150"
  by (simp add: amd_cppc_mhz_to_perf_def scenario_def Let_def word_sless_alt)

theorem set_target_spec_witness:
  "cppc_enabled scenario
   \<and> fst (amd_cppc_set store_ops cf3000 (scenario, \<lambda>_. 0)) = 0
   \<and> req_max_perf (fst (snd (amd_cppc_set store_ops cf3000 (scenario, \<lambda>_. 0)))) = 150
   \<and> req_min_perf (fst (snd (amd_cppc_set store_ops cf3000 (scenario, \<lambda>_. 0)))) = 20
   \<and> req_des_perf (fst (snd (amd_cppc_set store_ops cf3000 (scenario, \<lambda>_. 0)))) = 0
   \<and> snd (snd (amd_cppc_set store_ops cf3000 (scenario, \<lambda>_. 0))) (0, MSR_AMD_CPPC_REQ) = 0x7F001496
   \<and> \<not> cppc_enabled (scenario\<lparr>cppc_enabled := False\<rparr>)
   \<and> amd_cppc_set store_ops cf3000 (scenario\<lparr>cppc_enabled := False\<rparr>, \<lambda>_. 0)
       = (ENXIO, scenario\<lparr>cppc_enabled := False\<rparr>, \<lambda>_. 0)"
  using set_target_spec[of scenario store_ops cf3000 "\<lambda>_. 0"]
    set_target_spec[of "scenario\<lparr>cppc_enabled := False\<rparr>" store_ops cf3000 "\<lambda>_. 0"]
  by (simp add: mhz_to_perf_scenario_3000 cf3000_def)
     (simp add: scenario_def store_ops_def AMD_CPPC_REQ_BUILD_def)

text \<open>
  Claim C6. A preference outside \<open>[0, 100]\<close> is rejected with \<open>EINVAL\<close> (OutOfRange)
  and neither \<open>epp\<close> nor \<open>req_epp\<close> nor the machine changes. A preference inside the
  range is stored in \<open>epp\<close>, its hardware value \<open>epp_to_hw epp\<close> in \<open>req_epp\<close>, and on an
  enabled instance the combined request is written again at once.
\<close>

theorem set_preference_spec:
  "(sint e < 0 \<or> 100 < sint e \<longrightarrow>
      amd_cppc_sysctl_epp ops \<lparr>handle_error = 0, newptr = Some e\<rparr> (sc, h) = (EINVAL, sc, h))
   \<and> (0 \<le> sint e \<and> sint e \<le> 100 \<longrightarrow>
      amd_cppc_sysctl_epp ops \<lparr>handle_error = 0, newptr = Some e\<rparr> (sc, h) =
        (0,
         sc\<lparr>epp := e, req_epp := amd_cppc_epp_to_hw e\<rparr>,
         if cppc_enabled sc
         then wrmsr ops h (cpu_id sc) MSR_AMD_CPPC_REQ
                (AMD_CPPC_REQ_BUILD (req_max_perf sc) (req_min_perf sc) (req_des_perf sc)
                   (amd_cppc_epp_to_hw e))
         else h))"
  by (auto simp: amd_cppc_sysctl_epp_def amd_cppc_write_req_def amd_cppc_wrmsr_def Let_def
        word_sless_alt)

theorem set_preference_spec_witness:
  "(sint (101 :: c_int) < 0 \<or> 100 < sint (101 :: c_int))
   \<and> amd_cppc_sysctl_epp store_ops \<lparr>handle_error = 0, newptr = Some 101\<rparr> (scenario, \<lambda>_. 0)
       = (EINVAL, scenario, \<lambda>_. 0)
   \<and> (0 \<le> sint (80 :: c_int) \<and> sint (80 :: c_int) \<le> 100)
   \<and> fst (amd_cppc_sysctl_epp store_ops \<lparr>handle_error = 0, newptr = Some 80\<rparr> (scenario, \<lambda>_. 0)) = 0
   \<and> epp (fst (snd (amd_cppc_sysctl_epp store_ops \<lparr>handle_error = 0, newptr = Some 80\<rparr>
         (scenario, \<lambda>_. 0)))) = 80
   \<and> req_epp (fst (snd (amd_cppc_sysctl_epp store_ops \<lparr>handle_error = 0, newptr = Some 80\<rparr>
         (scenario, \<lambda>_. 0)))) = 204
   \<and> snd (snd (amd_cppc_sysctl_epp store_ops \<lparr>handle_error = 0, newptr = Some 80\<rparr>
         (scenario, \<lambda>_. 0))) (0, MSR_AMD_CPPC_REQ) = 0xCC0014B4"
  using set_preference_spec[of 101 store_ops scenario "\<lambda>_. 0"]
    set_preference_spec[of 80 store_ops scenario "\<lambda>_. 0"]
  by (simp add: scenario_def store_ops_def AMD_CPPC_REQ_BUILD_def amd_cppc_epp_to_hw_def
        word_sless_alt signed_divide_int_def)

lemma read_caps_keeps_request:
  assumes "amd_cppc_read_caps ops (sc, h) = (e, sc1)"
  shows "req_max_perf sc1 = req_max_perf sc" "req_min_perf sc1 = req_min_perf sc"
    "req_des_perf sc1 = req_des_perf sc" "req_epp sc1 = req_epp sc"
    "cpu_id sc1 = cpu_id sc" "dev sc1 = dev sc"
  using assms by (auto simp: amd_cppc_read_caps_def Let_def split: if_splits)

lemma enable_keeps_request:
  assumes "amd_cppc_enable ops (sc, h) = (e, sc1, h1)"
  shows "req_max_perf sc1 = req_max_perf sc" "req_min_perf sc1 = req_min_perf sc"
    "req_des_perf sc1 = req_des_perf sc" "req_epp sc1 = req_epp sc"
    "cpu_id sc1 = cpu_id sc" "dev sc1 = dev sc" "e = 0 \<Longrightarrow> cppc_enabled sc1"
  using assms by (auto simp: amd_cppc_enable_def Let_def ENXIO_def split: if_splits)

lemma resume_restores_request:
  assumes "amd_cppc_resume ops (sc, h) = (0, sc2, h2)"
  shows "cppc_enabled sc2" "req_max_perf sc2 = req_max_perf sc"
    "req_min_perf sc2 = req_min_perf sc" "req_des_perf sc2 = req_des_perf sc"
    "req_epp sc2 = req_epp sc" "dev sc2 = dev sc"
    "\<exists>h1. h2 = wrmsr ops h1 (cpu_id sc) MSR_AMD_CPPC_REQ
            (AMD_CPPC_REQ_BUILD (req_max_perf sc) (req_min_perf sc) (req_des_perf sc) (req_epp sc))"
proof -
  obtain e1 sc1 where c: "amd_cppc_read_caps ops (sc, h) = (e1, sc1)"
    by (cases "amd_cppc_read_caps ops (sc, h)")
  obtain e2 sc2' h1 where n: "amd_cppc_enable ops (sc1, h) = (e2, sc2', h1)"
    by (cases "amd_cppc_enable ops (sc1, h)")
  from assms have e: "e1 = 0" "e2 = 0" "sc2 = sc2'" "h2 = amd_cppc_write_req ops sc2' h1"
    by (auto simp: amd_cppc_resume_def c n split: if_splits)
  note k1 = read_caps_keeps_request[OF c]
  note k2 = enable_keeps_request[OF n]
  show "cppc_enabled sc2" using k2(7) e by simp
  show "req_max_perf sc2 = req_max_perf sc" using k1 k2 e by simp
  show "req_min_perf sc2 = req_min_perf sc" using k1 k2 e by simp
  show "req_des_perf sc2 = req_des_perf sc" using k1 k2 e by simp
  show "req_epp sc2 = req_epp sc" using k1 k2 e by simp
  show "dev sc2 = dev sc" using k1 k2 e by simp
  have "h2 = wrmsr ops h1 (cpu_id sc) MSR_AMD_CPPC_REQ
            (AMD_CPPC_REQ_BUILD (req_max_perf sc) (req_min_perf sc) (req_des_perf sc) (req_epp sc))"
    using k1 k2 e by (simp add: amd_cppc_write_req_def amd_cppc_wrmsr_def)
  then show "\<exists>h1. h2 = wrmsr ops h1 (cpu_id sc) MSR_AMD_CPPC_REQ
            (AMD_CPPC_REQ_BUILD (req_max_perf sc) (req_min_perf sc) (req_des_perf sc) (req_epp sc))"
    by blast
qed

text \<open>
  Claim C2 says that \<open>disable\<close> zeroes the request fields of the softc and that the old
  \<open>req_max_perf\<close> returns only through a new \<open>set_target\<close>. Here the fields survive
  \<open>disable\<close> (only the request register is zeroed), and \<open>resume\<close> alone writes the old
  request, level 150 included, back to the register.
\<close>

theorem disable_counterexample:
  "cppc_enabled sc150
   \<and> req_max_perf (fst (amd_cppc_disable store_ops (sc150, hw_on))) = 150
   \<and> req_max_perf (fst (amd_cppc_disable store_ops (sc150, hw_on))) \<noteq> 0
   \<and> req_min_perf (fst (amd_cppc_disable store_ops (sc150, hw_on))) = 20
   \<and> req_epp (fst (amd_cppc_disable store_ops (sc150, hw_on))) = 127
   \<and> \<not> cppc_enabled (fst (amd_cppc_disable store_ops (sc150, hw_on)))
   \<and> snd (amd_cppc_disable store_ops (sc150, hw_on)) (0, MSR_AMD_CPPC_REQ) = 0
   \<and> fst (amd_cppc_resume store_ops (amd_cppc_disable store_ops (sc150, hw_on))) = 0
   \<and> req_max_perf (fst (snd (amd_cppc_resume store_ops
          (amd_cppc_disable store_ops (sc150, hw_on))))) = 150
   \<and> snd (snd (amd_cppc_resume store_ops (amd_cppc_disable store_ops (sc150, hw_on))))
         (0, MSR_AMD_CPPC_REQ) = 0x7F001496"
  by (simp add: hw_eval)

text \<open>
  Claim C2, amended. \<open>disable\<close> on an enabled instance writes 0 to the request register,
  then clears the enable bit, and clears \<open>cppc_enabled\<close>; the request fields of the softc
  keep their values. Afterwards \<open>get\<close> fails with \<open>ENXIO\<close> (NotEnabled). A successful
  \<open>resume\<close> enables the instance again with the request fields it had before \<open>disable\<close>,
  writes that request to the register without any \<open>set_target\<close>, and \<open>get\<close> then reports
  the MHz value of the old \<open>req_max_perf\<close>.
\<close>

theorem disable_keeps_request:
  "cppc_enabled sc \<longrightarrow>
     amd_cppc_disable ops (sc, h) =
       (sc\<lparr>cppc_enabled := False\<rparr>,
        wrmsr ops (wrmsr ops h (cpu_id sc) MSR_AMD_CPPC_REQ 0) (cpu_id sc) MSR_AMD_CPPC_ENABLE
          (rdmsr ops (wrmsr ops h (cpu_id sc) MSR_AMD_CPPC_REQ 0) (cpu_id sc) MSR_AMD_CPPC_ENABLE
             AND NOT AMD_CPPC_ENABLE_BIT))
     \<and> amd_cppc_get (fst (amd_cppc_disable ops (sc, h))) = (ENXIO, None)
     \<and> (\<forall>sc2 h2.
           amd_cppc_resume ops (amd_cppc_disable ops (sc, h)) = (0, sc2, h2) \<longrightarrow>
             cppc_enabled sc2
             \<and> req_max_perf sc2 = req_max_perf sc \<and> req_min_perf sc2 = req_min_perf sc
             \<and> req_des_perf sc2 = req_des_perf sc \<and> req_epp sc2 = req_epp sc
             \<and> (\<exists>h1. h2 = wrmsr ops h1 (cpu_id sc) MSR_AMD_CPPC_REQ
                    (AMD_CPPC_REQ_BUILD (req_max_perf sc) (req_min_perf sc) (req_des_perf sc)
                       (req_epp sc)))
             \<and> fst (amd_cppc_get sc2) = 0
             \<and> map_option freq (snd (amd_cppc_get sc2))
                 = Some (amd_cppc_perf_to_mhz sc2 (req_max_perf sc)))"
proof (intro impI conjI allI)
  assume en: "cppc_enabled sc"
  show d: "amd_cppc_disable ops (sc, h) =
       (sc\<lparr>cppc_enabled := False\<rparr>,
        wrmsr ops (wrmsr ops h (cpu_id sc) MSR_AMD_CPPC_REQ 0) (cpu_id sc) MSR_AMD_CPPC_ENABLE
          (rdmsr ops (wrmsr ops h (cpu_id sc) MSR_AMD_CPPC_REQ 0) (cpu_id sc) MSR_AMD_CPPC_ENABLE
             AND NOT AMD_CPPC_ENABLE_BIT))"
    using en by (simp add: amd_cppc_disable_def amd_cppc_wrmsr_def amd_cppc_rdmsr_def Let_def)
  show "amd_cppc_get (fst (amd_cppc_disable ops (sc, h))) = (ENXIO, None)"
    unfolding d by (simp add: amd_cppc_get_def)
  fix sc2 h2
  assume "amd_cppc_resume ops (amd_cppc_disable ops (sc, h)) = (0, sc2, h2)"
  then have r: "amd_cppc_resume ops (sc\<lparr>cppc_enabled := False\<rparr>,
        wrmsr ops (wrmsr ops h (cpu_id sc) MSR_AMD_CPPC_REQ 0) (cpu_id sc) MSR_AMD_CPPC_ENABLE
          (rdmsr ops (wrmsr ops h (cpu_id sc) MSR_AMD_CPPC_REQ 0) (cpu_id sc) MSR_AMD_CPPC_ENABLE
             AND NOT AMD_CPPC_ENABLE_BIT)) = (0, sc2, h2)"
    unfolding d .
  note k = resume_restores_request[OF r]
  show e2: "cppc_enabled sc2" by (rule k(1))
  show m: "req_max_perf sc2 = req_max_perf sc" using k(2) by simp
  show "req_min_perf sc2 = req_min_perf sc" using k(3) by simp
  show "req_des_perf sc2 = req_des_perf sc" using k(4) by simp
  show "req_epp sc2 = req_epp sc" using k(5) by simp
  show "\<exists>h1. h2 = wrmsr ops h1 (cpu_id sc) MSR_AMD_CPPC_REQ
                    (AMD_CPPC_REQ_BUILD (req_max_perf sc) (req_min_perf sc) (req_des_perf sc)
                       (req_epp sc))"
    using k(7) by simp
  show "fst (amd_cppc_get sc2) = 0" using e2 by (simp add: amd_cppc_get_def)
  show "map_option freq (snd (amd_cppc_get sc2)) = Some (amd_cppc_perf_to_mhz sc2 (req_max_perf sc))"
    using e2 m by (simp add: amd_cppc_get_def)
qed

theorem disable_keeps_request_witness:
  "cppc_enabled sc150
   \<and> amd_cppc_get (fst (amd_cppc_disable store_ops (sc150, hw_on))) = (ENXIO, None)
   \<and> fst (amd_cppc_resume store_ops (amd_cppc_disable store_ops (sc150, hw_on))) = 0
   \<and> map_option freq (snd (amd_cppc_get (fst (snd (amd_cppc_resume store_ops
         (amd_cppc_disable store_ops (sc150, hw_on))))))) = Some 3000"
  using disable_keeps_request[of sc150 store_ops hw_on]
  by (simp add: hw_eval amd_cppc_get_def amd_cppc_perf_to_mhz_def)

section \<open>Settings enumeration\<close>

lemma settings_step_160:
  assumes "highest_perf sc = 180" "lowest_perf sc = 20"
  shows "settings_step sc = 5"
  using assms by (simp add: settings_step_def signed_divide_int_def)

lemma settings_30_entries:
  assumes "cppc_enabled sc" "highest_perf sc = 180" "lowest_perf sc = 20"
  shows "amd_cppc_settings sc 30 =
           (0, map (\<lambda>k. mk_setting sc (word_of_int (180 - 5 * int k))) [0..<30], 30)"
  using assms
  by (simp add: amd_cppc_settings_def settings_step_160 AMD_CPPC_MAX_SETTINGS_def upt_rec)

lemma settings_loop_bound:
  assumes "settings_loop sc count step perf n sets = (n', sets')"
    and "int (length sets) = n"
  shows "int (length sets') = n' \<and> n' \<le> max n (min count AMD_CPPC_MAX_SETTINGS)"
  using assms
proof (induction sc count step perf n sets rule: settings_loop.induct)
  case (1 sc count step perf n sets)
  show ?case
  proof (cases "perf > uint (lowest_perf sc) \<and> \<not> (n \<ge> count \<or> n \<ge> AMD_CPPC_MAX_SETTINGS)")
    case True
    then have "settings_loop sc count step (perf - step) (n + 1)
               (sets @ [mk_setting sc (word_of_int perf)]) = (n', sets')"
      using "1.prems"(1) by (simp add: settings_loop.simps[of sc count step perf n sets])
    moreover have "int (length (sets @ [mk_setting sc (word_of_int perf)])) = n + 1"
      using "1.prems"(2) by simp
    ultimately have "int (length sets') = n' \<and> n' \<le> max (n + 1) (min count AMD_CPPC_MAX_SETTINGS)"
      using "1.IH" True by blast
    then show ?thesis using True by auto
  next
    case False
    then have "(n', sets') = (n, sets)"
      using "1.prems"(1) by (auto simp: settings_loop.simps[of sc count step perf n sets] split: if_splits)
    then show ?thesis using "1.prems"(2) by auto
  qed
qed

lemma settings_count_bound:
  "int (length (fst (snd (amd_cppc_settings sc count)))) \<le> max 0 (min count AMD_CPPC_MAX_SETTINGS)
   \<and> (fst (amd_cppc_settings sc count) = 0 \<longrightarrow>
        snd (snd (amd_cppc_settings sc count)) = int (length (fst (snd (amd_cppc_settings sc count)))))"
proof -
  obtain n sets where l: "settings_loop sc count (settings_step sc) (uint (highest_perf sc)) 0 [] = (n, sets)"
    by (cases "settings_loop sc count (settings_step sc) (uint (highest_perf sc)) 0 []")
  from settings_loop_bound[OF l] have b: "int (length sets) = n" "n \<le> max 0 (min count AMD_CPPC_MAX_SETTINGS)"
    by simp_all
  show ?thesis
    using b by (auto simp: amd_cppc_settings_def Let_def l ENXIO_def AMD_CPPC_MAX_SETTINGS_def)
qed

lemma stride_div:
  fixes b n p q :: int
  assumes "0 < b" "0 < n" "n \<le> 5 * b" "p + 5 \<le> q"
  shows "b * p div n < b * q div n"
proof -
  have "b * p + n \<le> b * p + b * 5" using assms(3) by simp
  also have "\<dots> = b * (p + 5)" by (simp add: algebra_simps)
  also have "\<dots> \<le> b * q" using assms(1,4) by (intro mult_left_mono) simp_all
  finally have "(b * p + n) div n \<le> b * q div n" by (rule zdiv_mono1) (rule assms(2))
  moreover have "(b * p + n) div n = b * p div n + 1"
    using assms(2) div_add_self2[of n "b * p"] by simp
  ultimately show ?thesis by simp
qed

lemma uint8_pos: "(w::uint8_t) \<noteq> 0 \<Longrightarrow> 0 < uint w"
  by (simp add: word_greater_zero_iff uint_0_iff less_le)

lemma perf_to_mhz_stride:
  assumes b: "0 < sint (base_freq_mhz sc)"
    and n: "nominal_perf sc \<noteq> 0"
    and stride: "uint (nominal_perf sc) \<le> 5 * sint (base_freq_mhz sc)"
    and pq: "uint p + 5 \<le> uint q"
    and fit: "sint (base_freq_mhz sc) * uint q div uint (nominal_perf sc) < 2 ^ 31"
  shows "sint (amd_cppc_perf_to_mhz sc p) < sint (amd_cppc_perf_to_mhz sc q)"
proof -
  let ?b = "sint (base_freq_mhz sc)" and ?n = "uint (nominal_perf sc)"
  have lt: "?b * uint p div ?n < ?b * uint q div ?n"
    using b uint8_pos[OF n] stride pq by (rule stride_div)
  then have fitp: "?b * uint p div ?n < 2 ^ 31" using fit by simp
  have b0: "0 \<le> ?b" using b by simp
  have "sint (amd_cppc_perf_to_mhz sc p) = ?b * uint p div ?n"
    using b0 fitp by (rule perf_to_mhz_sint)
  moreover have "sint (amd_cppc_perf_to_mhz sc q) = ?b * uint q div ?n"
    using b0 fit by (rule perf_to_mhz_sint)
  ultimately show ?thesis using lt by simp
qed

lemma uint_level:
  assumes "k < 30"
  shows "uint (word_of_int (180 - 5 * int k) :: uint8_t) = 180 - 5 * int k"
proof -
  have "0 \<le> 180 - 5 * int k" "180 - 5 * int k < 2 ^ 8" using assms by simp_all
  then have "take_bit 8 (180 - 5 * int k) = 180 - 5 * int k" by (rule take_bit_int_eq_self)
  then show ?thesis unfolding uint_word_of_int_eq by simp
qed

lemma levels_descending:
  assumes b: "0 < sint (base_freq_mhz sc)"
    and n: "nominal_perf sc \<noteq> 0"
    and stride: "uint (nominal_perf sc) \<le> 5 * sint (base_freq_mhz sc)"
    and fit: "sint (base_freq_mhz sc) * 180 div uint (nominal_perf sc) < 2 ^ 31"
  shows "sorted_wrt (\<lambda>a b. sint (freq b) < sint (freq a))
           (map (\<lambda>k. mk_setting sc (word_of_int (180 - 5 * int k))) [0..<30])"
proof -
  let ?lv = "\<lambda>k. (word_of_int (180 - 5 * int k) :: uint8_t)"
  have npos: "0 < uint (nominal_perf sc)" using n by (rule uint8_pos)
  have step: "sint (amd_cppc_perf_to_mhz sc (?lv j)) < sint (amd_cppc_perf_to_mhz sc (?lv i))"
    if ij: "i < j" "j < 30" for i j
  proof (rule perf_to_mhz_stride[OF b n stride])
    have i: "i < 30" using ij by simp
    show "uint (?lv j) + 5 \<le> uint (?lv i)"
      unfolding uint_level[OF ij(2)] uint_level[OF i] using ij by simp
    have "sint (base_freq_mhz sc) * (180 - 5 * int i) \<le> sint (base_freq_mhz sc) * 180"
      using b by (intro mult_left_mono) simp_all
    then have "sint (base_freq_mhz sc) * (180 - 5 * int i) div uint (nominal_perf sc)
        \<le> sint (base_freq_mhz sc) * 180 div uint (nominal_perf sc)"
      by (rule zdiv_mono1) (rule npos)
    then show "sint (base_freq_mhz sc) * uint (?lv i) div uint (nominal_perf sc) < 2 ^ 31"
      unfolding uint_level[OF i] using fit by simp
  qed
  have "sorted_wrt (\<lambda>a b. sint (freq b) < sint (freq a)) (map (\<lambda>k. mk_setting sc (?lv k)) [0..<30])
        = sorted_wrt (\<lambda>i j. sint (amd_cppc_perf_to_mhz sc (?lv j)) < sint (amd_cppc_perf_to_mhz sc (?lv i))) [0..<30]"
    unfolding sorted_wrt_map mk_setting_def by simp
  also have "\<dots>"
    unfolding sorted_wrt_iff_nth_less using step by (simp del: upt_Suc of_int_diff of_int_mult)
  finally show ?thesis .
qed

lemma settings_33_entries:
  assumes "cppc_enabled sc" "highest_perf sc = 180" "lowest_perf sc = 20"
  shows "amd_cppc_settings sc 33 =
           (0, map (\<lambda>k. mk_setting sc (word_of_int (180 - 5 * int k))) [0..<32]
               @ [mk_setting sc (lowest_perf sc)], 33)"
  using assms
  by (simp add: amd_cppc_settings_def settings_step_160 AMD_CPPC_MAX_SETTINGS_def upt_rec)

text \<open>
  Claim C3 says that with highest 180, lowest 20 and room for 30 entries the last entry is
  the MHz value of \<open>lowest_perf\<close>. In the scenario (nominal 100, base 2000 MHz) the last
  of the 30 entries is 700 MHz, the value of level 35, while \<open>lowest_perf\<close> is 400 MHz.
\<close>

theorem settings_counterexample:
  "cppc_enabled scenario \<and> highest_perf scenario = 180 \<and> lowest_perf scenario = 20
   \<and> freq (last (fst (snd (amd_cppc_settings scenario 30)))) = 700
   \<and> amd_cppc_perf_to_mhz scenario (lowest_perf scenario) = 400
   \<and> freq (last (fst (snd (amd_cppc_settings scenario 30))))
       \<noteq> amd_cppc_perf_to_mhz scenario (lowest_perf scenario)"
proof -
  have s: "cppc_enabled scenario" "highest_perf scenario = 180" "lowest_perf scenario = 20"
    by (simp_all add: scenario_def)
  have "freq (last (fst (snd (amd_cppc_settings scenario 30)))) = amd_cppc_perf_to_mhz scenario 35"
    unfolding settings_30_entries[OF s] by (simp add: last_map mk_setting_def)
  moreover have "amd_cppc_perf_to_mhz scenario 35 = 700"
    by (simp add: amd_cppc_perf_to_mhz_def scenario_def)
  moreover have "amd_cppc_perf_to_mhz scenario (lowest_perf scenario) = 400"
    by (simp add: amd_cppc_perf_to_mhz_def scenario_def)
  ultimately show ?thesis using s by simp
qed

text \<open>
  Claim C3, amended. With highest 180 and lowest 20 the step is 5. A call with room for 30
  entries returns exactly 30, the settings of the levels 180, 175, ..., 35, so the last
  one is the MHz value of level 35: the stride uses up the room before \<open>lowest_perf\<close>
  can be appended. The MHz values are strictly descending when the base frequency is
  positive, five levels span at least 1 MHz (\<open>nominal_perf \<le> 5 * base_freq_mhz\<close>) and the
  highest value fits an \<open>int\<close>. With room for 33 entries the 33rd and last one is the MHz
  value of \<open>lowest_perf\<close>. For every capability set and every \<open>count\<close> the number of
  entries is at most \<open>count\<close> and at most 64.
\<close>

theorem settings_180_20:
  "(cppc_enabled sc \<and> highest_perf sc = 180 \<and> lowest_perf sc = 20 \<longrightarrow>
      settings_step sc = 5
      \<and> amd_cppc_settings sc 30 =
            (0, map (\<lambda>k. mk_setting sc (word_of_int (180 - 5 * int k))) [0..<30], 30)
      \<and> length (fst (snd (amd_cppc_settings sc 30))) = 30
      \<and> freq (last (fst (snd (amd_cppc_settings sc 30)))) = amd_cppc_perf_to_mhz sc 35
      \<and> (0 < sint (base_freq_mhz sc) \<and> nominal_perf sc \<noteq> 0
           \<and> uint (nominal_perf sc) \<le> 5 * sint (base_freq_mhz sc)
           \<and> sint (base_freq_mhz sc) * 180 div uint (nominal_perf sc) < 2 ^ 31 \<longrightarrow>
             sorted_wrt (\<lambda>a b. sint (freq b) < sint (freq a))
               (fst (snd (amd_cppc_settings sc 30))))
      \<and> length (fst (snd (amd_cppc_settings sc 33))) = 33
      \<and> freq (last (fst (snd (amd_cppc_settings sc 33))))
          = amd_cppc_perf_to_mhz sc (lowest_perf sc))
   \<and> int (length (fst (snd (amd_cppc_settings sc count))))
       \<le> max 0 (min count AMD_CPPC_MAX_SETTINGS)"
proof (intro conjI impI)
  show "int (length (fst (snd (amd_cppc_settings sc count))))
       \<le> max 0 (min count AMD_CPPC_MAX_SETTINGS)"
    using settings_count_bound[of sc count] by simp
next
  assume "cppc_enabled sc \<and> highest_perf sc = 180 \<and> lowest_perf sc = 20"
  then have s: "cppc_enabled sc" "highest_perf sc = 180" "lowest_perf sc = 20" by simp_all
  show "settings_step sc = 5" using s(2,3) by (rule settings_step_160)
  show e: "amd_cppc_settings sc 30 =
            (0, map (\<lambda>k. mk_setting sc (word_of_int (180 - 5 * int k))) [0..<30], 30)"
    using s by (rule settings_30_entries)
  show "length (fst (snd (amd_cppc_settings sc 30))) = 30"
    unfolding e by simp
  show "freq (last (fst (snd (amd_cppc_settings sc 30)))) = amd_cppc_perf_to_mhz sc 35"
    unfolding e by (simp add: last_map mk_setting_def)
  show "length (fst (snd (amd_cppc_settings sc 33))) = 33"
    unfolding settings_33_entries[OF s] by simp
  show "freq (last (fst (snd (amd_cppc_settings sc 33)))) = amd_cppc_perf_to_mhz sc (lowest_perf sc)"
    unfolding settings_33_entries[OF s] by (simp add: mk_setting_def)
  assume "0 < sint (base_freq_mhz sc) \<and> nominal_perf sc \<noteq> 0
           \<and> uint (nominal_perf sc) \<le> 5 * sint (base_freq_mhz sc)
           \<and> sint (base_freq_mhz sc) * 180 div uint (nominal_perf sc) < 2 ^ 31"
  then have "sorted_wrt (\<lambda>a b. sint (freq b) < sint (freq a))
           (map (\<lambda>k. mk_setting sc (word_of_int (180 - 5 * int k))) [0..<30])"
    by (intro levels_descending) simp_all
  then show "sorted_wrt (\<lambda>a b. sint (freq b) < sint (freq a)) (fst (snd (amd_cppc_settings sc 30)))"
    unfolding e by simp
qed

theorem settings_180_20_witness:
  "cppc_enabled scenario \<and> highest_perf scenario = 180 \<and> lowest_perf scenario = 20
   \<and> 0 < sint (base_freq_mhz scenario) \<and> nominal_perf scenario \<noteq> 0
   \<and> uint (nominal_perf scenario) \<le> 5 * sint (base_freq_mhz scenario)
   \<and> sint (base_freq_mhz scenario) * 180 div uint (nominal_perf scenario) < 2 ^ 31
   \<and> settings_step scenario = 5
   \<and> length (fst (snd (amd_cppc_settings scenario 30))) = 30
   \<and> sorted_wrt (\<lambda>a b. sint (freq b) < sint (freq a)) (fst (snd (amd_cppc_settings scenario 30)))
   \<and> freq (last (fst (snd (amd_cppc_settings scenario 33)))) = 400"
proof -
  have h: "cppc_enabled scenario \<and> highest_perf scenario = 180 \<and> lowest_perf scenario = 20"
    by (simp add: scenario_def)
  have g: "0 < sint (base_freq_mhz scenario) \<and> nominal_perf scenario \<noteq> 0
     \<and> uint (nominal_perf scenario) \<le> 5 * sint (base_freq_mhz scenario)
     \<and> sint (base_freq_mhz scenario) * 180 div uint (nominal_perf scenario) < 2 ^ 31"
    by (simp add: scenario_def)
  have l: "amd_cppc_perf_to_mhz scenario (lowest_perf scenario) = 400"
    by (simp add: amd_cppc_perf_to_mhz_def scenario_def)
  from settings_180_20[of scenario 30] h have
    "settings_step scenario = 5
      \<and> length (fst (snd (amd_cppc_settings scenario 30))) = 30
      \<and> (0 < sint (base_freq_mhz scenario) \<and> nominal_perf scenario \<noteq> 0
           \<and> uint (nominal_perf scenario) \<le> 5 * sint (base_freq_mhz scenario)
           \<and> sint (base_freq_mhz scenario) * 180 div uint (nominal_perf scenario) < 2 ^ 31 \<longrightarrow>
             sorted_wrt (\<lambda>a b. sint (freq b) < sint (freq a))
               (fst (snd (amd_cppc_settings scenario 30))))
      \<and> freq (last (fst (snd (amd_cppc_settings scenario 33))))
          = amd_cppc_perf_to_mhz scenario (lowest_perf scenario)"
    by blast
  with h g l show ?thesis by presburger
qed

section \<open>MHz to performance level\<close>

lemma uint_of_sint_nonneg: "0 \<le> sint (x::c_int) \<Longrightarrow> uint x = sint x"
proof -
  assume a: "0 \<le> sint x"
  have "sint x < 2 ^ 32" using sint_bounds32(2)[of x] by simp
  with a have "take_bit 32 (sint x) = sint x" by (rule take_bit_int_eq_self)
  then show ?thesis using uint_sint[of x] by simp
qed

lemma uint_scast_nonneg: "0 \<le> sint (x::c_int) \<Longrightarrow> uint (scast x :: uint64_t) = sint x"
proof -
  assume a: "0 \<le> sint x"
  have "sint x < 2 ^ 64" using sint_bounds32(2)[of x] by simp
  with a have "sint x mod 2 ^ 64 = sint x" by simp
  then show ?thesis unfolding uint_scast_int .
qed

lemma uint_scast_neg: "sint (x::c_int) < 0 \<Longrightarrow> uint (scast x :: uint64_t) = 2 ^ 64 + sint x"
proof -
  assume a: "sint x < 0"
  have m: "(k::int) mod 2 ^ 64 = 2 ^ 64 + k" if "- (2 ^ 64) \<le> k" "k < 0" for k
  proof -
    have "(k + 2 ^ 64) mod 2 ^ 64 = k + 2 ^ 64" using that by (intro mod_pos_pos_trivial) simp_all
    then show ?thesis by (simp add: add.commute)
  qed
  have "- (2 ^ 64) \<le> sint x" using sint_bounds32(1)[of x] by simp
  then have "sint x mod 2 ^ 64 = 2 ^ 64 + sint x" using a by (rule m)
  then show ?thesis unfolding uint_scast_int .
qed

lemma ucast_32_8_small:
  assumes "0 \<le> sint (x::c_int)" "sint x < 256"
  shows "uint (ucast x :: uint8_t) = sint x"
proof -
  have "take_bit 8 (sint x) = sint x" using assms by (intro take_bit_int_eq_self) simp_all
  then show ?thesis
    unfolding unsigned_ucast_eq uint_of_sint_nonneg[OF assms(1)] by simp
qed

lemma mhz_to_perf_clamp:
  assumes "base_freq_mhz sc \<noteq> 0"
  shows "uint (amd_cppc_mhz_to_perf sc mhz) =
           min (uint (highest_perf sc)) (max (uint (lowest_perf sc))
             (sint (ucast ((scast mhz :: uint64_t) * ucast (nominal_perf sc)
                           div scast (base_freq_mhz sc)) :: c_int)))"
proof -
  define raw where "raw = (ucast ((scast mhz :: uint64_t) * ucast (nominal_perf sc)
                           div scast (base_freq_mhz sc)) :: c_int)"
  define p1 where "p1 = (if raw <s ucast (lowest_perf sc) then ucast (lowest_perf sc) else raw)"
  define p2 where "p2 = (if ucast (highest_perf sc) <s p1 then ucast (highest_perf sc) else p1)"
  have r: "amd_cppc_mhz_to_perf sc mhz = ucast p2"
    using assms by (simp add: amd_cppc_mhz_to_perf_def Let_def raw_def p1_def p2_def)
  have s1: "sint p1 = max (uint (lowest_perf sc)) (sint raw)"
    by (simp add: p1_def word_sless_alt sint_ucast_8_32 max_def)
  have s2: "sint p2 = min (uint (highest_perf sc)) (sint p1)"
    by (simp add: p2_def word_sless_alt sint_ucast_8_32 min_def)
  have lo: "0 \<le> uint (lowest_perf sc)" and hi: "uint (highest_perf sc) < 256"
    and hi0: "0 \<le> uint (highest_perf sc)"
    using uint8_bound by simp_all
  have "0 \<le> sint p2" using s1 s2 lo hi0 by linarith
  moreover have "sint p2 < 256" using s2 hi by linarith
  ultimately have "uint (ucast p2 :: uint8_t) = sint p2" by (rule ucast_32_8_small)
  then show ?thesis unfolding r s2 s1 raw_def .
qed

lemma mhz_raw_nonneg:
  fixes m b :: c_int and n :: uint8_t
  assumes "0 \<le> sint m" "0 < sint b"
  shows "uint ((scast m :: uint64_t) * ucast n div scast b) = sint m * uint n div sint b"
proof -
  have y: "sint m * uint n mod 2 ^ 64 = sint m * uint n"
    using prod_bound[OF assms(1) sint_bounds32(2) uint8_bound(2) uint8_bound(1), of n] by simp
  have "uint ((scast m :: uint64_t) * ucast n) = sint m * uint n mod 2 ^ 64"
    unfolding uint_word_ariths uint_scast_nonneg[OF assms(1)] uint_ucast_8_64 by simp
  then have "uint ((scast m :: uint64_t) * ucast n) = sint m * uint n"
    unfolding y .
  moreover have "uint (scast b :: uint64_t) = sint b"
    using assms(2) by (intro uint_scast_nonneg) simp
  ultimately show ?thesis
    unfolding uint_div by simp
qed

lemma mhz_raw_neg:
  fixes m b :: c_int and n :: uint8_t
  assumes "sint m < 0" "0 < sint b" "n \<noteq> 0"
  shows "uint ((scast m :: uint64_t) * ucast n div scast b) = (2 ^ 64 + sint m * uint n) div sint b"
proof -
  have n: "0 < uint n" "uint n < 256" using uint8_pos[OF assms(3)] uint8_bound(1)[of n] by simp_all
  have lb: "- (2 ^ 31) * 256 \<le> sint m * uint n"
  proof -
    have "(- sint m) * uint n \<le> 2 ^ 31 * 256"
      using sint_bounds32(1)[of m] n assms(1) by (intro mult_mono) simp_all
    then show ?thesis by simp
  qed
  have neg: "sint m * uint n < 0"
    using assms(1) n(1) by (simp add: mult_neg_pos)
  have "(2 ^ 64 + sint m) * uint n mod 2 ^ 64 = (sint m * uint n + uint n * 2 ^ 64) mod 2 ^ 64"
    by (simp add: algebra_simps)
  also have "\<dots> = sint m * uint n mod 2 ^ 64"
    by (rule mod_mult_self1)
  also have "\<dots> = (sint m * uint n + 2 ^ 64) mod 2 ^ 64"
    by simp
  also have "\<dots> = sint m * uint n + 2 ^ 64"
    using lb neg by (intro mod_pos_pos_trivial) simp_all
  finally have y: "(2 ^ 64 + sint m) * uint n mod 2 ^ 64 = 2 ^ 64 + sint m * uint n"
    by simp
  have "uint ((scast m :: uint64_t) * ucast n) = (2 ^ 64 + sint m) * uint n mod 2 ^ 64"
    unfolding uint_word_ariths uint_scast_neg[OF assms(1)] uint_ucast_8_64 by simp
  then have "uint ((scast m :: uint64_t) * ucast n) = 2 ^ 64 + sint m * uint n"
    unfolding y .
  moreover have "uint (scast b :: uint64_t) = sint b"
    using assms(2) by (intro uint_scast_nonneg) simp
  ultimately show ?thesis
    unfolding uint_div by simp
qed

text \<open>
  Claim C10 says that every negative \<open>mhz\<close> yields \<open>highest_perf\<close>. In the scenario
  (nominal 100, base 2000 MHz) the frequency \<open>-1\<close> yields \<open>lowest_perf\<close>, level 20, and
  \<open>set_target\<close> caps the request there.
\<close>

theorem negative_mhz_counterexample:
  "sint (- 1 :: c_int) < 0
   \<and> amd_cppc_mhz_to_perf scenario (- 1) = 20
   \<and> amd_cppc_mhz_to_perf scenario (- 1) \<noteq> highest_perf scenario
   \<and> highest_perf scenario = 180 \<and> lowest_perf scenario = 20
   \<and> req_max_perf (fst (snd (amd_cppc_set store_ops cf_unknown (scenario, \<lambda>_. 0)))) = 20"
  by (simp add: amd_cppc_mhz_to_perf_def amd_cppc_set_def cf_unknown_def CPUFREQ_VAL_UNKNOWN_def
        scenario_def Let_def word_sless_alt)

text \<open>
  Claim C10, amended. For a negative \<open>mhz\<close>, a positive base frequency and a non-zero
  nominal level, the 64-bit unsigned quotient is \<open>(2^64 + mhz * nominal_perf) / base\<close>;
  the cast to \<open>int\<close> keeps its low 32 bits as a signed value, and that value is clamped
  into \<open>[lowest_perf, highest_perf]\<close>. \<open>set_target\<close> stores the result in \<open>req_max_perf\<close>.
  The result is \<open>lowest_perf\<close> when the truncated quotient is negative (base 2000) and
  \<open>highest_perf\<close> when it is large and positive (base 3600).
\<close>

theorem negative_mhz_clamp:
  "sint mhz < 0 \<and> 0 < sint (base_freq_mhz sc) \<and> nominal_perf sc \<noteq> 0 \<longrightarrow>
     uint (amd_cppc_mhz_to_perf sc mhz) =
       min (uint (highest_perf sc)) (max (uint (lowest_perf sc))
         (sint (word_of_int ((2 ^ 64 + sint mhz * uint (nominal_perf sc))
                             div sint (base_freq_mhz sc)) :: c_int)))
     \<and> (cppc_enabled sc \<and> freq cf = mhz \<longrightarrow>
          req_max_perf (fst (snd (amd_cppc_set ops cf (sc, h)))) = amd_cppc_mhz_to_perf sc mhz)"
proof (intro impI conjI)
  assume a: "sint mhz < 0 \<and> 0 < sint (base_freq_mhz sc) \<and> nominal_perf sc \<noteq> 0"
  then have b: "base_freq_mhz sc \<noteq> 0" by auto
  have "uint ((scast mhz :: uint64_t) * ucast (nominal_perf sc) div scast (base_freq_mhz sc))
          = (2 ^ 64 + sint mhz * uint (nominal_perf sc)) div sint (base_freq_mhz sc)"
    using a by (intro mhz_raw_neg) simp_all
  then show "uint (amd_cppc_mhz_to_perf sc mhz) =
       min (uint (highest_perf sc)) (max (uint (lowest_perf sc))
         (sint (word_of_int ((2 ^ 64 + sint mhz * uint (nominal_perf sc))
                             div sint (base_freq_mhz sc)) :: c_int)))"
    unfolding mhz_to_perf_clamp[OF b] ucast_eq by simp
next
  assume "cppc_enabled sc \<and> freq cf = mhz"
  then show "req_max_perf (fst (snd (amd_cppc_set ops cf (sc, h)))) = amd_cppc_mhz_to_perf sc mhz"
    by (simp add: amd_cppc_set_def Let_def)
qed

theorem negative_mhz_clamp_witness:
  "sint (- 1 :: c_int) < 0 \<and> 0 < sint (base_freq_mhz scenario_3600)
   \<and> nominal_perf scenario_3600 \<noteq> 0
   \<and> cppc_enabled scenario_3600 \<and> freq cf_unknown = - 1
   \<and> uint (amd_cppc_mhz_to_perf scenario_3600 (- 1)) = 180
   \<and> req_max_perf (fst (snd (amd_cppc_set store_ops cf_unknown (scenario_3600, \<lambda>_. 0)))) = 180"
proof -
  have h: "sint (- 1 :: c_int) < 0 \<and> 0 < sint (base_freq_mhz scenario_3600)
      \<and> nominal_perf scenario_3600 \<noteq> 0"
    by (simp add: scenario_3600_def scenario_def)
  have g: "cppc_enabled scenario_3600 \<and> freq cf_unknown = - 1"
    by (simp add: scenario_3600_def scenario_def cf_unknown_def CPUFREQ_VAL_UNKNOWN_def)
  have v: "amd_cppc_mhz_to_perf scenario_3600 (- 1) = 180"
    by (simp add: amd_cppc_mhz_to_perf_def scenario_3600_def scenario_def Let_def word_sless_alt)
  from negative_mhz_clamp[of "- 1" scenario_3600 cf_unknown store_ops "\<lambda>_. 0"] h g
  have "req_max_perf (fst (snd (amd_cppc_set store_ops cf_unknown (scenario_3600, \<lambda>_. 0))))
          = amd_cppc_mhz_to_perf scenario_3600 (- 1)"
    by blast
  with h g v show ?thesis by simp
qed

lemma le_div_iff_mult:
  fixes a n x :: int
  assumes "0 < n"
  shows "x \<le> a div n \<longleftrightarrow> x * n \<le> a"
proof
  assume "x \<le> a div n"
  then have "x * n \<le> a div n * n" using assms by (intro mult_right_mono) simp_all
  also have "\<dots> \<le> a" using div_mult_mod_eq[of a n] pos_mod_sign[of n a] assms by linarith
  finally show "x * n \<le> a" .
next
  assume "x * n \<le> a"
  then have "x * n div n \<le> a div n" using assms by (intro zdiv_mono1)
  then show "x \<le> a div n" using assms by simp
qed

lemma div_less_iff_mult:
  fixes a n x :: int
  assumes "0 < n"
  shows "a div n < x \<longleftrightarrow> a < x * n"
  using le_div_iff_mult[OF assms, of x a] by linarith

lemma mhz_to_perf_nonneg:
  assumes m: "0 \<le> sint mhz" and b: "0 < sint (base_freq_mhz sc)"
    and fit: "sint mhz * uint (nominal_perf sc) div sint (base_freq_mhz sc) < 2 ^ 31"
  shows "uint (amd_cppc_mhz_to_perf sc mhz) =
           min (uint (highest_perf sc)) (max (uint (lowest_perf sc))
             (sint mhz * uint (nominal_perf sc) div sint (base_freq_mhz sc)))"
proof -
  have b0: "base_freq_mhz sc \<noteq> 0" using b by auto
  let ?w = "(scast mhz :: uint64_t) * ucast (nominal_perf sc) div scast (base_freq_mhz sc)"
  have u: "uint ?w = sint mhz * uint (nominal_perf sc) div sint (base_freq_mhz sc)"
    using m b by (rule mhz_raw_nonneg)
  then have "uint ?w < 2 ^ 31" using fit by simp
  then have "sint (ucast ?w :: c_int) = uint ?w" by (rule sint_ucast_64_32)
  then show ?thesis unfolding mhz_to_perf_clamp[OF b0] u by simp
qed

lemma word8_eq_uint: "uint (a::uint8_t) = uint b \<Longrightarrow> a = b"
  by (simp add: word_uint_eq_iff)

lemma perf_to_mhz_lowest_fits:
  assumes b: "0 < sint (base_freq_mhz sc)" and n: "nominal_perf sc \<noteq> 0"
    and ln: "lowest_perf sc \<le> nominal_perf sc"
  shows "sint (amd_cppc_perf_to_mhz sc (lowest_perf sc))
           = sint (base_freq_mhz sc) * uint (lowest_perf sc) div uint (nominal_perf sc)"
proof -
  let ?b = "sint (base_freq_mhz sc)" and ?n = "uint (nominal_perf sc)"
    and ?l = "uint (lowest_perf sc)"
  have npos: "0 < ?n" using n by (rule uint8_pos)
  have "?l \<le> ?n" using ln by (simp add: word_le_def)
  then have "?b * ?l \<le> ?b * ?n" using b by (intro mult_left_mono) simp_all
  then have "?b * ?l div ?n \<le> ?b * ?n div ?n" by (rule zdiv_mono1) (rule npos)
  also have "\<dots> = ?b" using npos by simp
  finally have "?b * ?l div ?n < 2 ^ 31" using sint_bounds32(2)[of "base_freq_mhz sc"] by linarith
  moreover have "0 \<le> ?b" using b by simp
  ultimately show ?thesis by (intro perf_to_mhz_sint)
qed

lemma below_floor_int:
  fixes m b n l :: int
  assumes "0 < b" "0 < n" "0 \<le> m" "m < b * l div n"
  shows "m * n div b < l"
proof -
  have "m + 1 \<le> b * l div n" using assms(4) by simp
  then have "(m + 1) * n \<le> b * l" using le_div_iff_mult[OF assms(2)] by blast
  then have "m * n < l * b" using assms(2) by (simp add: algebra_simps)
  then show ?thesis using div_less_iff_mult[OF assms(1)] by blast
qed

lemma above_ceiling_int:
  fixes m b n h :: int
  assumes "0 < b" "0 < n" "b * h div n < m"
  shows "h \<le> m * n div b"
proof -
  have "b * h < m * n" using assms(3) div_less_iff_mult[OF assms(2)] by blast
  then have "h * b \<le> m * n" by (simp add: mult.commute)
  then show ?thesis using le_div_iff_mult[OF assms(1)] by blast
qed

text \<open>
  Claim C8 says that every \<open>mhz\<close> below the floor frequency yields \<open>lowest_perf\<close>, and that
  the result is \<open>mhz * nominal_perf / base_freq_mhz\<close> clamped. On a 4200 MHz base the floor
  is 840 MHz; the frequency \<open>-1\<close> lies below it, its truncating quotient is 0, and yet the
  result is \<open>highest_perf\<close>, level 180.
\<close>

theorem below_floor_counterexample:
  "sint (- 1 :: c_int) < sint (amd_cppc_perf_to_mhz scenario_4200 (lowest_perf scenario_4200))
   \<and> amd_cppc_perf_to_mhz scenario_4200 (lowest_perf scenario_4200) = 840
   \<and> lowest_perf scenario_4200 = 20 \<and> highest_perf scenario_4200 = 180
   \<and> amd_cppc_mhz_to_perf scenario_4200 (- 1) = 180
   \<and> amd_cppc_mhz_to_perf scenario_4200 (- 1) \<noteq> lowest_perf scenario_4200"
  by (simp add: amd_cppc_mhz_to_perf_def amd_cppc_perf_to_mhz_def scenario_4200_def
        scenario_def Let_def word_sless_alt)

text \<open>
  Claim C8, amended. For a frequency that is not negative, a positive base frequency and
  a quotient that fits an \<open>int\<close>, \<open>mhz_to_perf\<close> returns \<open>mhz * nominal_perf / base_freq_mhz\<close>
  (truncating division) clamped into \<open>[lowest_perf, highest_perf]\<close>. It returns
  \<open>nominal_perf\<close> when the base frequency is 0. With validated capabilities, a
  non-negative frequency below the floor frequency yields \<open>lowest_perf\<close>, and a frequency
  above the ceiling frequency yields \<open>highest_perf\<close>. Negative frequencies are left out.
\<close>

theorem mhz_to_perf_spec:
  "(0 \<le> sint mhz \<and> 0 < sint (base_freq_mhz sc)
      \<and> sint mhz * uint (nominal_perf sc) div sint (base_freq_mhz sc) < 2 ^ 31 \<longrightarrow>
        uint (amd_cppc_mhz_to_perf sc mhz) =
          min (uint (highest_perf sc)) (max (uint (lowest_perf sc))
            (sint mhz * uint (nominal_perf sc) div sint (base_freq_mhz sc))))
   \<and> (base_freq_mhz sc = 0 \<longrightarrow> amd_cppc_mhz_to_perf sc mhz = nominal_perf sc)
   \<and> (0 \<le> sint mhz \<and> 0 < sint (base_freq_mhz sc) \<and> nominal_perf sc \<noteq> 0
        \<and> lowest_perf sc \<le> nominal_perf sc \<and> nominal_perf sc \<le> highest_perf sc
        \<and> sint mhz < sint (amd_cppc_perf_to_mhz sc (lowest_perf sc)) \<longrightarrow>
          amd_cppc_mhz_to_perf sc mhz = lowest_perf sc)
   \<and> (0 < sint (base_freq_mhz sc) \<and> nominal_perf sc \<noteq> 0
        \<and> lowest_perf sc \<le> nominal_perf sc \<and> nominal_perf sc \<le> highest_perf sc
        \<and> sint (base_freq_mhz sc) * uint (highest_perf sc) div uint (nominal_perf sc) < 2 ^ 31
        \<and> sint mhz * uint (nominal_perf sc) div sint (base_freq_mhz sc) < 2 ^ 31
        \<and> sint (amd_cppc_perf_to_mhz sc (highest_perf sc)) < sint mhz \<longrightarrow>
          amd_cppc_mhz_to_perf sc mhz = highest_perf sc)"
proof (intro conjI impI)
  assume "0 \<le> sint mhz \<and> 0 < sint (base_freq_mhz sc)
      \<and> sint mhz * uint (nominal_perf sc) div sint (base_freq_mhz sc) < 2 ^ 31"
  then show "uint (amd_cppc_mhz_to_perf sc mhz) =
          min (uint (highest_perf sc)) (max (uint (lowest_perf sc))
            (sint mhz * uint (nominal_perf sc) div sint (base_freq_mhz sc)))"
    by (intro mhz_to_perf_nonneg) simp_all
next
  assume "base_freq_mhz sc = 0"
  then show "amd_cppc_mhz_to_perf sc mhz = nominal_perf sc"
    by (simp add: amd_cppc_mhz_to_perf_def)
next
  let ?b = "sint (base_freq_mhz sc)" and ?n = "uint (nominal_perf sc)"
    and ?l = "uint (lowest_perf sc)" and ?h = "uint (highest_perf sc)"
  assume a: "0 \<le> sint mhz \<and> 0 < ?b \<and> nominal_perf sc \<noteq> 0
        \<and> lowest_perf sc \<le> nominal_perf sc \<and> nominal_perf sc \<le> highest_perf sc
        \<and> sint mhz < sint (amd_cppc_perf_to_mhz sc (lowest_perf sc))"
  then have npos: "0 < ?n" by (intro uint8_pos) simp
  have lh: "?l \<le> ?h" using a by (simp add: word_le_def)
  have "sint mhz < ?b * ?l div ?n"
    using a perf_to_mhz_lowest_fits[of sc] by simp
  then have q: "sint mhz * ?n div ?b < ?l"
    using a npos by (intro below_floor_int) simp_all
  moreover have "(256::int) < 2 ^ 31" by simp
  ultimately have "sint mhz * ?n div ?b < 2 ^ 31"
    using uint8_bound(1)[of "lowest_perf sc"] by linarith
  then have "uint (amd_cppc_mhz_to_perf sc mhz) = min ?h (max ?l (sint mhz * ?n div ?b))"
    using a by (intro mhz_to_perf_nonneg) simp_all
  then have "uint (amd_cppc_mhz_to_perf sc mhz) = ?l" using q lh by simp
  then show "amd_cppc_mhz_to_perf sc mhz = lowest_perf sc" by (rule word8_eq_uint)
next
  let ?b = "sint (base_freq_mhz sc)" and ?n = "uint (nominal_perf sc)"
    and ?l = "uint (lowest_perf sc)" and ?h = "uint (highest_perf sc)"
  assume a: "0 < ?b \<and> nominal_perf sc \<noteq> 0
        \<and> lowest_perf sc \<le> nominal_perf sc \<and> nominal_perf sc \<le> highest_perf sc
        \<and> ?b * ?h div ?n < 2 ^ 31
        \<and> sint mhz * ?n div ?b < 2 ^ 31
        \<and> sint (amd_cppc_perf_to_mhz sc (highest_perf sc)) < sint mhz"
  then have npos: "0 < ?n" by (intro uint8_pos) simp
  have b0: "0 \<le> ?b" using a by simp
  have "sint (amd_cppc_perf_to_mhz sc (highest_perf sc)) = ?b * ?h div ?n"
    using b0 a by (intro perf_to_mhz_sint) simp_all
  then have c: "?b * ?h div ?n < sint mhz" using a by simp
  have "0 \<le> ?b * ?h" using b0 by simp
  then have "0 \<le> ?b * ?h div ?n" using npos by (simp add: pos_imp_zdiv_nonneg_iff)
  then have m: "0 \<le> sint mhz" using c by linarith
  have q: "?h \<le> sint mhz * ?n div ?b"
    using a npos c by (intro above_ceiling_int) simp_all
  have "uint (amd_cppc_mhz_to_perf sc mhz) = min ?h (max ?l (sint mhz * ?n div ?b))"
    using m a by (intro mhz_to_perf_nonneg) simp_all
  then have "uint (amd_cppc_mhz_to_perf sc mhz) = ?h" using q by simp
  then show "amd_cppc_mhz_to_perf sc mhz = highest_perf sc" by (rule word8_eq_uint)
qed

theorem mhz_to_perf_spec_witness:
  "(0 \<le> sint (3000 :: c_int) \<and> 0 < sint (base_freq_mhz scenario)
      \<and> sint (3000 :: c_int) * uint (nominal_perf scenario) div sint (base_freq_mhz scenario) < 2 ^ 31)
   \<and> uint (amd_cppc_mhz_to_perf scenario 3000) = 150
   \<and> base_freq_mhz (scenario\<lparr>base_freq_mhz := 0\<rparr>) = 0
   \<and> amd_cppc_mhz_to_perf (scenario\<lparr>base_freq_mhz := 0\<rparr>) 3000 = 100
   \<and> sint (100 :: c_int) < sint (amd_cppc_perf_to_mhz scenario (lowest_perf scenario))
   \<and> amd_cppc_mhz_to_perf scenario 100 = 20
   \<and> sint (amd_cppc_perf_to_mhz scenario (highest_perf scenario)) < sint (5000 :: c_int)
   \<and> amd_cppc_mhz_to_perf scenario 5000 = 180"
proof -
  have c: "0 < sint (base_freq_mhz scenario)" "nominal_perf scenario \<noteq> 0"
    "lowest_perf scenario \<le> nominal_perf scenario" "nominal_perf scenario \<le> highest_perf scenario"
    "uint (nominal_perf scenario) = 100" "sint (base_freq_mhz scenario) = 2000"
    "lowest_perf scenario = 20" "highest_perf scenario = 180" "nominal_perf scenario = 100"
    by (simp_all add: scenario_def)
  have f: "amd_cppc_perf_to_mhz scenario (lowest_perf scenario) = 400"
    "amd_cppc_perf_to_mhz scenario (highest_perf scenario) = 3600"
    by (simp_all add: amd_cppc_perf_to_mhz_def scenario_def)
  have z: "base_freq_mhz (scenario\<lparr>base_freq_mhz := 0\<rparr>) = 0"
    "nominal_perf (scenario\<lparr>base_freq_mhz := 0\<rparr>) = 100"
    by (simp_all add: scenario_def)
  have 1: "uint (amd_cppc_mhz_to_perf scenario 3000) = 150"
    using mhz_to_perf_spec[of 3000 scenario] c by simp
  have 2: "amd_cppc_mhz_to_perf (scenario\<lparr>base_freq_mhz := 0\<rparr>) 3000 = 100"
    using mhz_to_perf_spec[of 3000 "scenario\<lparr>base_freq_mhz := 0\<rparr>"] z by simp
  have 3: "amd_cppc_mhz_to_perf scenario 100 = 20"
    using mhz_to_perf_spec[of 100 scenario] c f by simp
  have 4: "amd_cppc_mhz_to_perf scenario 5000 = 180"
    using mhz_to_perf_spec[of 5000 scenario] c f by simp
  show ?thesis using 1 2 3 4 c f z by simp
qed

section \<open>Round trip between MHz and performance level\<close>

lemma roundtrip_int:
  fixes f b n l h :: int
  assumes b: "0 < b" and n: "0 < n" and lh: "l \<le> h"
    and lo: "b * l div n \<le> f" and hi: "f \<le> b * h div n"
  defines "p \<equiv> min h (max l (f * n div b))"
  shows "b * p div n \<le> f" and "p < h \<Longrightarrow> f \<le> b * (p + 1) div n"
    and "(f - b * p div n) * n < b + n" and "l \<le> p" and "p \<le> h"
proof -
  define q where "q = f * n div b"
  have qb: "q * b \<le> f * n" unfolding q_def using le_div_iff_mult[OF b, of "f * n div b" "f * n"] by simp
  have qb1: "f * n < (q + 1) * b" unfolding q_def using div_less_iff_mult[OF b, of "f * n" "f * n div b + 1"] by simp
  have "f * n \<le> b * h" using hi le_div_iff_mult[OF n] by blast
  then have "f * n < (h + 1) * b" using b by (simp add: algebra_simps)
  then have "q < h + 1" unfolding q_def using div_less_iff_mult[OF b] by blast
  then have qh: "q \<le> h" by simp
  then have p: "p = max l q" unfolding p_def q_def using lh by simp
  show "l \<le> p" unfolding p by simp
  show "p \<le> h" unfolding p using lh qh by simp
  have g: "b * p - n < (b * p div n) * n"
    using div_mult_mod_eq[of "b * p" n] pos_mod_bound[OF n, of "b * p"] by linarith
  show le: "b * p div n \<le> f"
  proof (cases "l \<le> q")
    case True
    then have "p = q" unfolding p by simp
    then have "b * p \<le> f * n" using qb by (simp add: mult.commute)
    then have "b * p div n \<le> f * n div n" by (rule zdiv_mono1) (rule n)
    then show ?thesis using n by simp
  next
    case False
    then have "p = l" unfolding p by simp
    then show ?thesis using lo by simp
  qed
  have up: "f * n < b * p + b"
  proof (cases "l \<le> q")
    case True
    then have "p = q" unfolding p by simp
    then show ?thesis using qb1 by (simp add: algebra_simps)
  next
    case False
    then have pl: "p = l" and "q + 1 \<le> l" unfolding p by simp_all
    then have "(q + 1) * b \<le> l * b" using b by (intro mult_right_mono) simp_all
    then show ?thesis using qb1 pl b by (simp add: algebra_simps)
  qed
  show "(f - b * p div n) * n < b + n"
    using up g by (simp add: algebra_simps)
  show "f \<le> b * (p + 1) div n" if "p < h"
  proof -
    have "f * n \<le> b * (p + 1)" using up by (simp add: algebra_simps)
    then show ?thesis using le_div_iff_mult[OF n] by blast
  qed
qed

lemma uint_succ_below:
  fixes x y :: uint8_t
  assumes "x < y"
  shows "uint (x + 1) = uint x + 1"
proof -
  have "uint x < uint y" using assms by (simp add: word_less_def)
  then have "uint x + uint (1 :: uint8_t) < 2 ^ LENGTH(8)"
    using uint8_bound(1)[of y] by simp
  then show ?thesis using uint_add_lem[of x 1] by simp
qed

lemma roundtrip_facts:
  assumes b: "0 < sint (base_freq_mhz sc)" and n: "nominal_perf sc \<noteq> 0"
    and ln: "lowest_perf sc \<le> nominal_perf sc" and nh: "nominal_perf sc \<le> highest_perf sc"
    and fit: "sint (base_freq_mhz sc) * uint (highest_perf sc) div uint (nominal_perf sc) < 2 ^ 31"
    and lo: "sint (amd_cppc_perf_to_mhz sc (lowest_perf sc)) \<le> sint f"
    and hi: "sint f \<le> sint (amd_cppc_perf_to_mhz sc (highest_perf sc))"
  shows "uint (amd_cppc_mhz_to_perf sc f) =
           min (uint (highest_perf sc)) (max (uint (lowest_perf sc))
             (sint f * uint (nominal_perf sc) div sint (base_freq_mhz sc)))"
    and "sint (amd_cppc_perf_to_mhz sc (amd_cppc_mhz_to_perf sc f)) \<le> sint f"
    and "amd_cppc_mhz_to_perf sc f < highest_perf sc \<Longrightarrow>
           sint f \<le> sint (amd_cppc_perf_to_mhz sc (amd_cppc_mhz_to_perf sc f + 1))"
    and "(sint f - sint (amd_cppc_perf_to_mhz sc (amd_cppc_mhz_to_perf sc f)))
            * uint (nominal_perf sc) < sint (base_freq_mhz sc) + uint (nominal_perf sc)"
    and "lowest_perf sc \<le> amd_cppc_mhz_to_perf sc f"
    and "amd_cppc_mhz_to_perf sc f \<le> highest_perf sc"
proof -
  let ?b = "sint (base_freq_mhz sc)" and ?n = "uint (nominal_perf sc)"
    and ?l = "uint (lowest_perf sc)" and ?h = "uint (highest_perf sc)"
  let ?p = "min ?h (max ?l (sint f * ?n div ?b))"
  have npos: "0 < ?n" using n by (rule uint8_pos)
  have b0: "0 \<le> ?b" using b by simp
  have lh: "?l \<le> ?h" using ln nh by (simp add: word_le_def)
  have L: "sint (amd_cppc_perf_to_mhz sc (lowest_perf sc)) = ?b * ?l div ?n"
    using b n ln by (rule perf_to_mhz_lowest_fits)
  have H: "sint (amd_cppc_perf_to_mhz sc (highest_perf sc)) = ?b * ?h div ?n"
    using b0 fit by (rule perf_to_mhz_sint)
  have flo: "?b * ?l div ?n \<le> sint f" using lo L by simp
  have fhi: "sint f \<le> ?b * ?h div ?n" using hi H by simp
  have "0 \<le> ?b * ?l" using b0 by simp
  then have "0 \<le> ?b * ?l div ?n" using npos by (simp add: pos_imp_zdiv_nonneg_iff)
  then have f0: "0 \<le> sint f" using flo by linarith
  note rt = roundtrip_int[OF b npos lh flo fhi]
  have "sint f * ?n div ?b \<le> ?h"
  proof -
    have "sint f * ?n \<le> ?b * ?h" using fhi le_div_iff_mult[OF npos] by blast
    then have "sint f * ?n div ?b \<le> ?b * ?h div ?b" by (rule zdiv_mono1) (rule b)
    then show ?thesis using b by simp
  qed
  moreover have "?h < 256" by (rule uint8_bound(1))
  moreover have "(256::int) < 2 ^ 31" by simp
  ultimately have qfit: "sint f * ?n div ?b < 2 ^ 31" by linarith
  show p: "uint (amd_cppc_mhz_to_perf sc f) = ?p"
    using f0 b qfit by (rule mhz_to_perf_nonneg)
  have "?b * ?p div ?n < 2 ^ 31"
    using rt(1) sint_bounds32(2)[of f] by linarith
  then have g: "sint (amd_cppc_perf_to_mhz sc (amd_cppc_mhz_to_perf sc f)) = ?b * ?p div ?n"
    using perf_to_mhz_sint[OF b0, of "amd_cppc_mhz_to_perf sc f"] unfolding p by simp
  show "sint (amd_cppc_perf_to_mhz sc (amd_cppc_mhz_to_perf sc f)) \<le> sint f"
    unfolding g by (rule rt(1))
  show "(sint f - sint (amd_cppc_perf_to_mhz sc (amd_cppc_mhz_to_perf sc f))) * ?n < ?b + ?n"
    unfolding g by (rule rt(3))
  show "lowest_perf sc \<le> amd_cppc_mhz_to_perf sc f"
    unfolding word_le_def p by (rule rt(4))
  show "amd_cppc_mhz_to_perf sc f \<le> highest_perf sc"
    unfolding word_le_def p by (rule rt(5))
  show "sint f \<le> sint (amd_cppc_perf_to_mhz sc (amd_cppc_mhz_to_perf sc f + 1))"
    if lt: "amd_cppc_mhz_to_perf sc f < highest_perf sc"
  proof -
    have ph: "?p < ?h" using lt unfolding word_less_def p .
    have u: "uint (amd_cppc_mhz_to_perf sc f + 1) = ?p + 1"
      using uint_succ_below[OF lt] unfolding p .
    have "?b * (?p + 1) \<le> ?b * ?h" using ph b0 by (intro mult_left_mono) simp_all
    then have "?b * (?p + 1) div ?n \<le> ?b * ?h div ?n" by (rule zdiv_mono1) (rule npos)
    then have "?b * (?p + 1) div ?n < 2 ^ 31" using fit by linarith
    then have "sint (amd_cppc_perf_to_mhz sc (amd_cppc_mhz_to_perf sc f + 1)) = ?b * (?p + 1) div ?n"
      using perf_to_mhz_sint[OF b0, of "amd_cppc_mhz_to_perf sc f + 1"] unfolding u by simp
    then show ?thesis using rt(2)[OF ph] by simp
  qed
qed

text \<open>
  Claim C5. Let the capabilities be validated, the base frequency positive and the ceiling
  frequency \<open>perf_to_mhz highest_perf\<close> within \<open>int\<close>. For every \<open>f\<close> between the floor and
  the ceiling frequency, with \<open>p = mhz_to_perf f\<close>: \<open>perf_to_mhz p \<le> f\<close>, and \<open>f\<close> is at
  most the MHz value of the next level \<open>p + 1\<close> (at the top level the round trip is
  exact), so \<open>f\<close> lies within the MHz width of one level; in numbers,
  \<open>f - perf_to_mhz p < base_freq_mhz / nominal_perf + 1\<close>. Moreover \<open>mhz_to_perf\<close> is
  monotonic on the range: a larger frequency never gives a smaller level.
\<close>

theorem roundtrip_granularity:
  "0 < sint (base_freq_mhz sc)
   \<and> highest_perf sc \<noteq> 0 \<and> nominal_perf sc \<noteq> 0 \<and> lowest_perf sc \<noteq> 0
   \<and> lowest_perf sc \<le> nominal_perf sc \<and> nominal_perf sc \<le> highest_perf sc
   \<and> sint (base_freq_mhz sc) * uint (highest_perf sc) div uint (nominal_perf sc) < 2 ^ 31
   \<and> sint (amd_cppc_perf_to_mhz sc (lowest_perf sc)) \<le> sint f
   \<and> sint f \<le> sint (amd_cppc_perf_to_mhz sc (highest_perf sc)) \<longrightarrow>
     sint (amd_cppc_perf_to_mhz sc (amd_cppc_mhz_to_perf sc f)) \<le> sint f
     \<and> (amd_cppc_mhz_to_perf sc f < highest_perf sc \<longrightarrow>
          sint f \<le> sint (amd_cppc_perf_to_mhz sc (amd_cppc_mhz_to_perf sc f + 1)))
     \<and> (amd_cppc_mhz_to_perf sc f = highest_perf sc \<longrightarrow>
          amd_cppc_perf_to_mhz sc (amd_cppc_mhz_to_perf sc f) = f)
     \<and> (sint f - sint (amd_cppc_perf_to_mhz sc (amd_cppc_mhz_to_perf sc f)))
           * uint (nominal_perf sc) < sint (base_freq_mhz sc) + uint (nominal_perf sc)
     \<and> (\<forall>g. sint f \<le> sint g \<and> sint g \<le> sint (amd_cppc_perf_to_mhz sc (highest_perf sc))
            \<longrightarrow> amd_cppc_mhz_to_perf sc f \<le> amd_cppc_mhz_to_perf sc g)"
proof (intro impI)
  let ?b = "sint (base_freq_mhz sc)" and ?n = "uint (nominal_perf sc)"
  assume a: "0 < ?b
   \<and> highest_perf sc \<noteq> 0 \<and> nominal_perf sc \<noteq> 0 \<and> lowest_perf sc \<noteq> 0
   \<and> lowest_perf sc \<le> nominal_perf sc \<and> nominal_perf sc \<le> highest_perf sc
   \<and> ?b * uint (highest_perf sc) div ?n < 2 ^ 31
   \<and> sint (amd_cppc_perf_to_mhz sc (lowest_perf sc)) \<le> sint f
   \<and> sint f \<le> sint (amd_cppc_perf_to_mhz sc (highest_perf sc))"
  then have b: "0 < ?b" and n: "nominal_perf sc \<noteq> 0"
    and ln: "lowest_perf sc \<le> nominal_perf sc" and nh: "nominal_perf sc \<le> highest_perf sc"
    and fit: "?b * uint (highest_perf sc) div ?n < 2 ^ 31"
    and lo: "sint (amd_cppc_perf_to_mhz sc (lowest_perf sc)) \<le> sint f"
    and hi: "sint f \<le> sint (amd_cppc_perf_to_mhz sc (highest_perf sc))"
    by simp_all
  note rf = roundtrip_facts[OF b n ln nh fit lo hi]
  have top: "amd_cppc_perf_to_mhz sc (amd_cppc_mhz_to_perf sc f) = f"
    if e: "amd_cppc_mhz_to_perf sc f = highest_perf sc"
  proof (rule signed_word_eqI)
    show "sint (amd_cppc_perf_to_mhz sc (amd_cppc_mhz_to_perf sc f)) = sint f"
      using rf(2) hi unfolding e by linarith
  qed
  have mono: "amd_cppc_mhz_to_perf sc f \<le> amd_cppc_mhz_to_perf sc g"
    if g: "sint f \<le> sint g \<and> sint g \<le> sint (amd_cppc_perf_to_mhz sc (highest_perf sc))" for g
  proof -
    have glo: "sint (amd_cppc_perf_to_mhz sc (lowest_perf sc)) \<le> sint g" using lo g by linarith
    have ghi: "sint g \<le> sint (amd_cppc_perf_to_mhz sc (highest_perf sc))" using g by simp
    note rg = roundtrip_facts(1)[OF b n ln nh fit glo ghi]
    have "sint f * ?n \<le> sint g * ?n" using g by (intro mult_right_mono) simp_all
    then have "sint f * ?n div ?b \<le> sint g * ?n div ?b" by (rule zdiv_mono1) (rule b)
    then show ?thesis unfolding word_le_def rf(1) rg by simp
  qed
  show "sint (amd_cppc_perf_to_mhz sc (amd_cppc_mhz_to_perf sc f)) \<le> sint f
     \<and> (amd_cppc_mhz_to_perf sc f < highest_perf sc \<longrightarrow>
          sint f \<le> sint (amd_cppc_perf_to_mhz sc (amd_cppc_mhz_to_perf sc f + 1)))
     \<and> (amd_cppc_mhz_to_perf sc f = highest_perf sc \<longrightarrow>
          amd_cppc_perf_to_mhz sc (amd_cppc_mhz_to_perf sc f) = f)
     \<and> (sint f - sint (amd_cppc_perf_to_mhz sc (amd_cppc_mhz_to_perf sc f)))
           * ?n < ?b + ?n
     \<and> (\<forall>g. sint f \<le> sint g \<and> sint g \<le> sint (amd_cppc_perf_to_mhz sc (highest_perf sc))
            \<longrightarrow> amd_cppc_mhz_to_perf sc f \<le> amd_cppc_mhz_to_perf sc g)"
    using rf(2) rf(3) rf(4) top mono by blast
qed

theorem roundtrip_granularity_witness:
  "0 < sint (base_freq_mhz scenario)
   \<and> highest_perf scenario \<noteq> 0 \<and> nominal_perf scenario \<noteq> 0 \<and> lowest_perf scenario \<noteq> 0
   \<and> lowest_perf scenario \<le> nominal_perf scenario \<and> nominal_perf scenario \<le> highest_perf scenario
   \<and> sint (base_freq_mhz scenario) * uint (highest_perf scenario) div uint (nominal_perf scenario) < 2 ^ 31
   \<and> sint (amd_cppc_perf_to_mhz scenario (lowest_perf scenario)) \<le> sint (3010 :: c_int)
   \<and> sint (3010 :: c_int) \<le> sint (amd_cppc_perf_to_mhz scenario (highest_perf scenario))
   \<and> sint (3010 :: c_int) \<le> sint (3500 :: c_int)
   \<and> sint (3500 :: c_int) \<le> sint (amd_cppc_perf_to_mhz scenario (highest_perf scenario))
   \<and> amd_cppc_mhz_to_perf scenario 3010 = 150
   \<and> amd_cppc_perf_to_mhz scenario 150 = 3000
   \<and> amd_cppc_perf_to_mhz scenario 151 = 3020
   \<and> sint (amd_cppc_perf_to_mhz scenario (amd_cppc_mhz_to_perf scenario 3010)) \<le> sint (3010 :: c_int)
   \<and> sint (3010 :: c_int) \<le> sint (amd_cppc_perf_to_mhz scenario (amd_cppc_mhz_to_perf scenario 3010 + 1))
   \<and> amd_cppc_mhz_to_perf scenario 3010 \<le> amd_cppc_mhz_to_perf scenario 3500"
proof -
  have h: "0 < sint (base_freq_mhz scenario)
   \<and> highest_perf scenario \<noteq> 0 \<and> nominal_perf scenario \<noteq> 0 \<and> lowest_perf scenario \<noteq> 0
   \<and> lowest_perf scenario \<le> nominal_perf scenario \<and> nominal_perf scenario \<le> highest_perf scenario
   \<and> sint (base_freq_mhz scenario) * uint (highest_perf scenario) div uint (nominal_perf scenario) < 2 ^ 31"
    by (simp add: scenario_def)
  have r: "sint (amd_cppc_perf_to_mhz scenario (lowest_perf scenario)) \<le> sint (3010 :: c_int)
   \<and> sint (3010 :: c_int) \<le> sint (amd_cppc_perf_to_mhz scenario (highest_perf scenario))"
    by (simp add: amd_cppc_perf_to_mhz_def scenario_def)
  have g: "sint (3010 :: c_int) \<le> sint (3500 :: c_int)
   \<and> sint (3500 :: c_int) \<le> sint (amd_cppc_perf_to_mhz scenario (highest_perf scenario))"
    by (simp add: amd_cppc_perf_to_mhz_def scenario_def)
  have v: "amd_cppc_mhz_to_perf scenario 3010 = 150"
    by (simp add: amd_cppc_mhz_to_perf_def scenario_def Let_def word_sless_alt)
  have w: "amd_cppc_perf_to_mhz scenario 150 = 3000" "amd_cppc_perf_to_mhz scenario 151 = 3020"
    by (simp_all add: amd_cppc_perf_to_mhz_def scenario_def)
  have lt: "amd_cppc_mhz_to_perf scenario 3010 < highest_perf scenario"
    unfolding v by (simp add: scenario_def)
  from roundtrip_granularity[of scenario 3010] h r have
    c: "sint (amd_cppc_perf_to_mhz scenario (amd_cppc_mhz_to_perf scenario 3010)) \<le> sint (3010 :: c_int)"
    and d: "amd_cppc_mhz_to_perf scenario 3010 < highest_perf scenario \<longrightarrow>
      sint (3010 :: c_int) \<le> sint (amd_cppc_perf_to_mhz scenario (amd_cppc_mhz_to_perf scenario 3010 + 1))"
    and m: "\<forall>g. sint (3010 :: c_int) \<le> sint g
        \<and> sint g \<le> sint (amd_cppc_perf_to_mhz scenario (highest_perf scenario))
        \<longrightarrow> amd_cppc_mhz_to_perf scenario 3010 \<le> amd_cppc_mhz_to_perf scenario g"
    by blast+
  from d lt have d': "sint (3010 :: c_int)
      \<le> sint (amd_cppc_perf_to_mhz scenario (amd_cppc_mhz_to_perf scenario 3010 + 1))"
    by blast
  from m g have m': "amd_cppc_mhz_to_perf scenario 3010 \<le> amd_cppc_mhz_to_perf scenario 3500"
    by blast
  show ?thesis
    using h r g v w c d' m' by blast
qed

end
